theory Spec2Isabelle
  imports Main
begin

section \<open>JavaScript values used by the client\<close>

text \<open>
  A decoded JSON document.  The library treats decoded documents as opaque values; the
  datatype is only needed to write down concrete documents.
\<close>

datatype json =
    JNull
  | JBool bool
  | JNumber int
  | JString string
  | JArray "json list"
  | JObject "(string \<times> json) list"

text \<open>
  A plain JavaScript object with string keys (\<^verbatim>\<open>Record<string, T>\<close>): a map from
  property names to values.
\<close>

type_synonym 'a js_object = "string \<rightharpoonup> 'a"

text \<open>
  \<^verbatim>\<open>Object.fromEntries(entries)\<close>: assigns the entries from left to right, so the last
  entry for a name stays.
\<close>

definition fromEntries :: "(string \<times> 'a) list \<Rightarrow> 'a js_object" where
  "fromEntries entries = fold (\<lambda>(k, v) obj. obj(k \<mapsto> v)) entries Map.empty"

section \<open>Request options and the transport (client.ts)\<close>

text \<open>An \<^verbatim>\<open>AbortSignal\<close> is an opaque handle.\<close>

type_synonym AbortSignal = nat

text \<open>
  \<^verbatim>\<open>interface WebSocketOptions { timeout?: number }\<close> and
  \<^verbatim>\<open>interface RequestOptions\<close>, which has a \<open>timeout\<close> field of the same type and
  four more fields; the second record is written as the extension of the first so that
  both keep the field name.  Every field is optional, \<open>None\<close> is \<^verbatim>\<open>undefined\<close>;
  durations are whole milliseconds.
\<close>

record WebSocketOptions =
  timeout :: "nat option"

record RequestOptions = WebSocketOptions +
  query :: "string option js_object option"
  body :: "json option"
  headers :: "string js_object option"
  signal :: "AbortSignal option"

text \<open>The object literal \<^verbatim>\<open>{}\<close> at type \<^verbatim>\<open>RequestOptions\<close>.\<close>

definition emptyOptions :: RequestOptions where
  "emptyOptions = \<lparr>timeout = None, query = None, body = None, headers = None, signal = None\<rparr>"

text \<open>\<^verbatim>\<open>{ ...options }\<close>: spreading \<^verbatim>\<open>undefined\<close> gives the empty object.\<close>

definition spread :: "RequestOptions option \<Rightarrow> RequestOptions" where
  "spread options = (case options of None \<Rightarrow> emptyOptions | Some opts \<Rightarrow> opts)"

text \<open>Errors a page fetch can raise.\<close>

datatype error =
    TypeError string  \<comment> \<open>\<^verbatim>\<open>new URL(s)\<close> on a string that is not an absolute URL\<close>
  | APIError nat      \<comment> \<open>a non-2xx response, with its status code\<close>
  | ConnectionError   \<comment> \<open>no response at all\<close>

text \<open>
  One call of \<^verbatim>\<open>client.get(path, options)\<close>.  The client is shared by all pages, so
  its observable state, the list of requests issued so far, is threaded through every
  operation.  What the remote service answers is a parameter: \<open>respond\<close> maps the
  requests issued before and the present request to an error or a decoded response.
\<close>

type_synonym request = "string \<times> RequestOptions option"

type_synonym 'r service = "request list \<Rightarrow> request \<Rightarrow> error + 'r"

definition client_get ::
  "'r service \<Rightarrow> string \<Rightarrow> RequestOptions option \<Rightarrow> request list \<Rightarrow> (error + 'r) \<times> request list"
where
  "client_get respond path options issued =
     (respond issued (path, options), issued @ [(path, options)])"

section \<open>Pagination (pagination.ts)\<close>

text \<open>
  \<^verbatim>\<open>CursorPaginatedResponse<T>\<close> has the fields \<open>next\<close>, \<open>previous\<close> and \<open>results\<close>;
  \<^verbatim>\<open>PagePaginatedResponse<T>\<close> has the same three and \<open>total_count\<close>, \<open>current_page\<close>,
  so it is the extension of the former record.  \<open>None\<close> is \<^verbatim>\<open>null\<close>.
\<close>

record 'v CursorPaginatedResponse =
  "next" :: "string option"
  previous :: "string option"
  results :: "'v list"

record 'v PagePaginatedResponse = "'v CursorPaginatedResponse" +
  total_count :: int
  current_page :: "int option"

text \<open>
  The classes \<^verbatim>\<open>Page\<close> and \<^verbatim>\<open>CursorPage\<close> have the same private fields (the client
  apart, which is threaded separately) and differ in the type of \<open>response\<close> only.  At run
  time a raw item and a transformed item are both plain values, so one type \<open>'v\<close> stands
  for \<^verbatim>\<open>T\<close> and \<^verbatim>\<open>R\<close>; the cast \<^verbatim>\<open>as unknown as R[]\<close> is then the identity.
\<close>

record ('v, 'r) paginated =
  path :: string
  response :: 'r
  options :: "RequestOptions option"
  transformer :: "('v \<Rightarrow> 'v) option"

type_synonym 'v Page = "('v, 'v PagePaginatedResponse) paginated"
type_synonym 'v CursorPage = "('v, 'v CursorPaginatedResponse) paginated"

text \<open>
  The methods \<^verbatim>\<open>getItems\<close>, \<^verbatim>\<open>hasNextPage\<close>, \<^verbatim>\<open>getNextPage\<close> and the async iterator
  have the same bodies in both classes; each is defined once, for every response record
  that extends \<^verbatim>\<open>CursorPaginatedResponse\<close>.
\<close>

definition getItems :: "('v, ('v, 'm) CursorPaginatedResponse_scheme) paginated \<Rightarrow> 'v list" where
  "getItems p =
     (case transformer p of
        Some f \<Rightarrow> map f (results (response p))
      | None \<Rightarrow> results (response p))"

text \<open>\<^verbatim>\<open>!!this.response.next\<close>: \<^verbatim>\<open>null\<close> and the empty string are falsy.\<close>

definition hasNextPage :: "('v, ('v, 'm) CursorPaginatedResponse_scheme) paginated \<Rightarrow> bool" where
  "hasNextPage p = (case next (response p) of None \<Rightarrow> False | Some u \<Rightarrow> u \<noteq> [])"

definition getCurrentPageNumber :: "'v Page \<Rightarrow> int" where
  "getCurrentPageNumber p = (case current_page (response p) of Some n \<Rightarrow> n | None \<Rightarrow> 1)"

text \<open>
  \<^verbatim>\<open>new URL(s)\<close> and its \<^verbatim>\<open>searchParams\<close> belong to the platform.  They enter as a
  parameter \<open>searchParams\<close>: \<open>None\<close> when \<^verbatim>\<open>new URL(s)\<close> throws, otherwise the
  name/value pairs of the query string in order.
\<close>

type_synonym url_parser = "string \<Rightarrow> (string \<times> string) list option"

text \<open>
  The options of the next request: a copy of this page's options whose \<open>query\<close> is the
  object built from the query string of \<open>next\<close>.
\<close>

definition nextOptions :: "RequestOptions option \<Rightarrow> (string \<times> string) list \<Rightarrow> RequestOptions" where
  "nextOptions opts entries =
     (spread opts)\<lparr>query := Some (fromEntries (map (\<lambda>(k, v). (k, Some v)) entries))\<rparr>"

text \<open>
  \<^verbatim>\<open>getNextPage\<close>.  The result is \<open>Inl\<close> for a rejected promise, \<open>Inr None\<close> for
  \<^verbatim>\<open>null\<close> and \<open>Inr (Some page)\<close> for the next page, together with the requests issued.
\<close>

definition getNextPage ::
  "url_parser \<Rightarrow> ('v, 'm) CursorPaginatedResponse_scheme service \<Rightarrow>
   ('v, ('v, 'm) CursorPaginatedResponse_scheme) paginated \<Rightarrow> request list \<Rightarrow>
   (error + ('v, ('v, 'm) CursorPaginatedResponse_scheme) paginated option) \<times> request list"
where
  "getNextPage searchParams respond p issued =
     (case next (response p) of
        None \<Rightarrow> (Inr None, issued)
      | Some u \<Rightarrow>
          if u = [] then (Inr None, issued)
          else
            (case searchParams u of
               None \<Rightarrow> (Inl (TypeError ''Invalid URL''), issued)
             | Some entries \<Rightarrow>
                 (case client_get respond (path p) (Some (nextOptions (options p) entries)) issued of
                    (Inl e, issued') \<Rightarrow> (Inl e, issued')
                  | (Inr r, issued') \<Rightarrow>
                      (Inr (Some \<lparr>path = path p, response = r,
                                 options = Some (nextOptions (options p) entries),
                                 transformer = transformer p\<rparr>),
                       issued'))))"

text \<open>
  The async iterator, consumed to its end.  \<open>this\<close> is the page the iterator was
  obtained from, \<open>self\<close> the loop variable (\<^verbatim>\<open>self\<close> in \<^verbatim>\<open>Page\<close>, \<^verbatim>\<open>currentPage\<close> in
  \<^verbatim>\<open>CursorPage\<close>), \<open>None\<close> when it is \<^verbatim>\<open>null\<close>; \<open>yielded\<close> collects the items
  yielded so far.  One unfolding is one round of \<^verbatim>\<open>while (true)\<close>: the \<^verbatim>\<open>for\<close> loop
  yields the items of \<^verbatim>\<open>this.getItems()\<close>, then the loop leaves when
  \<^verbatim>\<open>self?.hasNextPage()\<close> is falsy and otherwise awaits \<^verbatim>\<open>self.getNextPage()\<close>.
  The result holds the yielded items, the error the traversal failed with (if any)
  and the requests issued; it is \<open>None\<close> when the loop never ends.
\<close>

partial_function (option) asyncIterator_loop ::
  "url_parser \<Rightarrow> ('v, 'm) CursorPaginatedResponse_scheme service \<Rightarrow>
   ('v, ('v, 'm) CursorPaginatedResponse_scheme) paginated \<Rightarrow>
   ('v, ('v, 'm) CursorPaginatedResponse_scheme) paginated option \<Rightarrow>
   'v list \<Rightarrow> request list \<Rightarrow> ('v list \<times> error option \<times> request list) option"
where
  "asyncIterator_loop searchParams respond this self yielded issued =
     (case self of
        None \<Rightarrow> Some (yielded @ getItems this, None, issued)
      | Some s \<Rightarrow>
          if \<not> hasNextPage s then Some (yielded @ getItems this, None, issued)
          else
            (case getNextPage searchParams respond s issued of
               (Inl e, issued') \<Rightarrow> Some (yielded @ getItems this, Some e, issued')
             | (Inr self', issued') \<Rightarrow>
                 asyncIterator_loop searchParams respond this self'
                   (yielded @ getItems this) issued'))"

definition asyncIterator ::
  "url_parser \<Rightarrow> ('v, 'm) CursorPaginatedResponse_scheme service \<Rightarrow>
   ('v, ('v, 'm) CursorPaginatedResponse_scheme) paginated \<Rightarrow> request list \<Rightarrow>
   ('v list \<times> error option \<times> request list) option"
where
  "asyncIterator searchParams respond this issued =
     asyncIterator_loop searchParams respond this (Some this) [] issued"

section \<open>Streaming transport (handlers.ts)\<close>

subsection \<open>The platform: \<^verbatim>\<open>JSON.parse\<close>, timers, promises and the socket\<close>

text \<open>
  \<^verbatim>\<open>JSON.parse\<close> is a parameter of the model: \<open>None\<close> when it throws a
  \<^verbatim>\<open>SyntaxError\<close>, otherwise the decoded value.
\<close>

type_synonym 'j json_parser = "string \<Rightarrow> 'j option"

text \<open>\<^verbatim>\<open>class WebSocketError\<close> (error.ts): a message and an optional cause.\<close>

datatype cause = SyntaxError | SocketFault string

datatype WebSocketError = WebSocketError (message: string) (cause: "cause option")

text \<open>The template literal \<^verbatim>\<open>${n}\<close> for a whole number below \<open>10\<^sup>2\<^sup>1\<close>.\<close>

fun decimal :: "nat \<Rightarrow> string" where
  "decimal n =
     (if n < 10 then [''0123456789'' ! n]
      else decimal (n div 10) @ [''0123456789'' ! (n mod 10)])"

text \<open>
  Time is a clock counting milliseconds.  \<^verbatim>\<open>setTimeout(callback, ms)\<close> creates a timer
  that is due \<open>delay\<close> milliseconds after it was armed; Node replaces a delay below 1 or
  above \<open>2\<^sup>3\<^sup>1 - 1\<close> by 1.  A timer's callback runs when the clock reaches its due time.
\<close>

datatype timer = Timer (armedAt: nat) (delay: nat)

definition setTimeout :: "nat \<Rightarrow> nat \<Rightarrow> timer" where
  "setTimeout clock ms = Timer clock (if ms < 1 \<or> 2147483647 < ms then 1 else ms)"

definition due :: "timer \<Rightarrow> nat" where
  "due t = armedAt t + delay t"

text \<open>A promise settles once: \<^verbatim>\<open>resolve\<close> and \<^verbatim>\<open>reject\<close> on a settled promise do nothing.\<close>

datatype 'j promise = Pending | Resolved 'j | Rejected WebSocketError

definition resolve :: "'j \<Rightarrow> 'j promise \<Rightarrow> 'j promise" where
  "resolve v p = (case p of Pending \<Rightarrow> Resolved v | _ \<Rightarrow> p)"

definition reject :: "WebSocketError \<Rightarrow> 'j promise \<Rightarrow> 'j promise" where
  "reject e p = (case p of Pending \<Rightarrow> Rejected e | _ \<Rightarrow> p)"

text \<open>
  The socket of the \<^verbatim>\<open>ws\<close> package, as far as the handlers read it: its
  \<^verbatim>\<open>readyState\<close>, and a count of the \<^verbatim>\<open>close()\<close> calls made on it.  \<^verbatim>\<open>close()\<close>
  does nothing to a socket that is \<^verbatim>\<open>CLOSED\<close> and starts closing any other.  The socket
  becomes \<^verbatim>\<open>OPEN\<close> when it emits \<^verbatim>\<open>open\<close> and \<^verbatim>\<open>CLOSED\<close> when it emits
  \<^verbatim>\<open>close\<close>.
\<close>

datatype readyState = CONNECTING | OPEN | CLOSING | CLOSED

record WebSocket =
  readyState :: readyState
  closeCalls :: nat

definition createWebSocket :: WebSocket where
  "createWebSocket = \<lparr>readyState = CONNECTING, closeCalls = 0\<rparr>"

definition close :: "WebSocket \<Rightarrow> WebSocket" where
  "close w =
     w\<lparr>readyState := (if readyState w = CLOSED then CLOSED else CLOSING),
       closeCalls := Suc (closeCalls w)\<rparr>"

datatype event = OpenEvent | MessageEvent string | CloseEvent | ErrorEvent string

definition emitting :: "event \<Rightarrow> WebSocket \<Rightarrow> WebSocket" where
  "emitting e w =
     (case e of
        OpenEvent \<Rightarrow> if readyState w = CONNECTING then w\<lparr>readyState := OPEN\<rparr> else w
      | CloseEvent \<Rightarrow> w\<lparr>readyState := CLOSED\<rparr>
      | _ \<Rightarrow> w)"

text \<open>What the environment does between two runs of the library's code.\<close>

datatype occurrence = Elapse nat | Emit event

subsection \<open>\<^verbatim>\<open>WebSocketHandler\<close>: shared parts\<close>

definition DEFAULT_TIMEOUT :: nat where
  "DEFAULT_TIMEOUT = 600000"

text \<open>\<^verbatim>\<open>options.timeout ?? this.DEFAULT_TIMEOUT\<close>\<close>

definition timeoutOf :: "WebSocketOptions \<Rightarrow> nat" where
  "timeoutOf opts = (case timeout opts of Some ms \<Rightarrow> ms | None \<Rightarrow> DEFAULT_TIMEOUT)"

definition timeoutError :: "nat \<Rightarrow> WebSocketError" where
  "timeoutError ms =
     WebSocketError (''WebSocket connection timed out after '' @ decimal ms @ ''ms'') None"

definition parseError :: WebSocketError where
  "parseError = WebSocketError ''Failed to parse WebSocket message as JSON'' (Some SyntaxError)"

text \<open>The socket (\<open>None\<close> before \<^verbatim>\<open>createWebSocket\<close> has run) and the clock.\<close>

record connection =
  ws :: "WebSocket option"
  now :: nat

subsection \<open>\<^verbatim>\<open>listen\<close>\<close>

record 'j listen_state = connection +
  chunks :: "string list"
  timeoutId :: "timer option"  \<comment> \<open>\<open>None\<close> once cleared or run\<close>
  promise :: "'j promise"

definition handleWebSocketClose :: "'j json_parser \<Rightarrow> string list \<Rightarrow> 'j promise \<Rightarrow> 'j promise" where
  "handleWebSocketClose parse fragments p =
     (let joined = concat fragments in
      if joined = [] then
        reject (WebSocketError ''Connection closed without receiving any message'' None) p
      else
        (case parse joined of
           Some v \<Rightarrow> resolve v p
         | None \<Rightarrow> reject parseError p))"

text \<open>The state when \<^verbatim>\<open>listen\<close> returns its promise.\<close>

definition listen :: "WebSocketOptions \<Rightarrow> 'j listen_state" where
  "listen opts =
     \<lparr>ws = Some createWebSocket, now = 0, chunks = [],
      timeoutId = Some (setTimeout 0 (timeoutOf opts)), promise = Pending\<rparr>"

text \<open>
  One occurrence: the clock advances and the timer callback runs if it is due, or the
  socket emits an event and the listener registered for it runs.
\<close>

definition listen_step ::
  "'j json_parser \<Rightarrow> WebSocketOptions \<Rightarrow> 'j listen_state \<Rightarrow> occurrence \<Rightarrow> 'j listen_state"
where
  "listen_step parse opts s occ =
     (case occ of
        Elapse n \<Rightarrow>
          (let s' = s\<lparr>now := now s + n\<rparr> in
           case timeoutId s' of
             None \<Rightarrow> s'
           | Some t \<Rightarrow>
               if due t \<le> now s' then
                 s'\<lparr>promise := reject (timeoutError (timeoutOf opts)) (promise s'),
                    ws := map_option close (ws s'),
                    timeoutId := None\<rparr>
               else s')
      | Emit e \<Rightarrow>
          (let s' = s\<lparr>ws := map_option (emitting e) (ws s)\<rparr> in
           case e of
             OpenEvent \<Rightarrow> s'
           | MessageEvent d \<Rightarrow> s'\<lparr>chunks := chunks s' @ [d]\<rparr>
           | CloseEvent \<Rightarrow>
               s'\<lparr>timeoutId := None,
                  promise := handleWebSocketClose parse (chunks s') (promise s')\<rparr>
           | ErrorEvent x \<Rightarrow>
               s'\<lparr>timeoutId := None,
                  promise := reject (WebSocketError ''WebSocket connection error'' (Some (SocketFault x)))
                               (promise s')\<rparr>))"

definition listen_run ::
  "'j json_parser \<Rightarrow> WebSocketOptions \<Rightarrow> occurrence list \<Rightarrow> 'j listen_state"
where
  "listen_run parse opts occs = foldl (listen_step parse opts) (listen opts) occs"

subsection \<open>\<^verbatim>\<open>stream\<close>\<close>

text \<open>
  \<^verbatim>\<open>stream\<close> is an async generator: its body runs only while the consumer's request
  for the next item is being served, and it is suspended either at \<^verbatim>\<open>yield\<close> (until the
  consumer asks again) or at \<^verbatim>\<open>await Promise.race\<close> (until the race has settled and
  the event loop resumes it).  Socket events and timers run in between.
\<close>

datatype outcome = Exhausted | Abandoned | Threw WebSocketError

datatype control =
    NotStarted                 \<comment> \<open>the body has not begun\<close>
  | AtYield                    \<comment> \<open>suspended at \<^verbatim>\<open>yield\<close>\<close>
  | Awaiting                   \<comment> \<open>suspended at \<^verbatim>\<open>await Promise.race\<close>, race pending\<close>
  | RaceResolved               \<comment> \<open>the race was resolved by a \<^verbatim>\<open>message\<close> or \<^verbatim>\<open>close\<close> event\<close>
  | RaceRejected               \<comment> \<open>the race was rejected by \<^verbatim>\<open>timeoutPromise\<close>\<close>
  | Finished outcome           \<comment> \<open>the generator has completed\<close>

text \<open>
  The local variables of \<^verbatim>\<open>stream\<close> and \<^verbatim>\<open>processStreamMessages\<close>, the point of
  control, and what an observer sees: the values delivered to the consumer (\<open>yielded\<close>)
  and the exceptions that left an event listener (\<open>uncaught\<close>).  \<open>received\<close> and
  \<open>raceInstalledAt\<close> are history only, the code does not read them: every fragment
  handed to the \<^verbatim>\<open>message\<close> listener, and the time of the latest \<^verbatim>\<open>Promise.race\<close>.
\<close>

record 'j stream_state = connection +
  queue :: "string list"
  isConnectionClosed :: bool
  timeoutTimer :: "timer option"   \<comment> \<open>the timer behind \<^verbatim>\<open>timeoutPromise\<close>\<close>
  timeoutRejected :: bool          \<comment> \<open>\<^verbatim>\<open>timeoutPromise\<close> is rejected\<close>
  control :: control
  returnRequested :: bool          \<comment> \<open>\<^verbatim>\<open>return()\<close> arrived while a request was being served\<close>
  yielded :: "'j list"
  uncaught :: "WebSocketError list"
  received :: "string list"
  raceInstalledAt :: "nat option"

text \<open>The generator object as \<^verbatim>\<open>stream(path, options)\<close> returns it.\<close>

definition stream :: "'j stream_state" where
  "stream =
     \<lparr>ws = None, now = 0, queue = [], isConnectionClosed = False, timeoutTimer = None,
      timeoutRejected = False, control = NotStarted, returnRequested = False, yielded = [],
      uncaught = [], received = [], raceInstalledAt = None\<rparr>"

text \<open>
  The \<^verbatim>\<open>finally\<close> block of \<^verbatim>\<open>stream\<close>: \<^verbatim>\<open>if (ws.readyState !== WebSocket.CLOSED) ws.close()\<close>,
  after which the generator has completed with the given outcome.
\<close>

definition stream_finally :: "outcome \<Rightarrow> 'j stream_state \<Rightarrow> 'j stream_state" where
  "stream_finally out s =
     s\<lparr>ws := map_option (\<lambda>w. if readyState w \<noteq> CLOSED then close w else w) (ws s),
       control := Finished out\<rparr>"

text \<open>
  \<^verbatim>\<open>yield v\<close>: the value goes to the consumer and the generator is suspended; a
  \<^verbatim>\<open>return()\<close> that was waiting is served at once, through the \<^verbatim>\<open>finally\<close> block.
\<close>

definition yield :: "'j \<Rightarrow> 'j stream_state \<Rightarrow> 'j stream_state" where
  "yield v s =
     (if returnRequested s then stream_finally Abandoned (s\<lparr>yielded := yielded s @ [v]\<rparr>)
      else s\<lparr>yielded := yielded s @ [v], control := AtYield\<rparr>)"

text \<open>
  The loop of \<^verbatim>\<open>processStreamMessages\<close> from its head to the next suspension:
  \<^verbatim>\<open>while (!isClosedFn())\<close>, then either \<^verbatim>\<open>queue.shift()\<close>, \<^verbatim>\<open>JSON.parse\<close> and
  \<^verbatim>\<open>yield\<close>, or \<^verbatim>\<open>await Promise.race([<next message or close>, timeoutPromise])\<close>.
  A race with an already rejected \<^verbatim>\<open>timeoutPromise\<close> is rejected at once.  An exception
  leaves the loop, passes the \<^verbatim>\<open>finally\<close> block and fails the generator.
\<close>

definition processStreamMessages_loop ::
  "'j json_parser \<Rightarrow> nat \<Rightarrow> 'j stream_state \<Rightarrow> 'j stream_state"
where
  "processStreamMessages_loop parse ms s =
     (if isConnectionClosed s then stream_finally Exhausted s
      else
        (case queue s of
           fragment # rest \<Rightarrow>
             (case parse fragment of
                Some v \<Rightarrow> yield v (s\<lparr>queue := rest\<rparr>)
              | None \<Rightarrow> stream_finally (Threw parseError) (s\<lparr>queue := rest\<rparr>))
         | [] \<Rightarrow>
             if timeoutRejected s then
               stream_finally (Threw (timeoutError ms)) (s\<lparr>raceInstalledAt := Some (now s)\<rparr>)
             else s\<lparr>control := Awaiting, raceInstalledAt := Some (now s)\<rparr>))"

text \<open>
  The first request runs the body from its start: \<^verbatim>\<open>createWebSocket\<close>, the locals
  \<^verbatim>\<open>queue\<close> and \<^verbatim>\<open>isConnectionClosed\<close>, \<^verbatim>\<open>setupStreamHandlers\<close>, then
  \<^verbatim>\<open>processStreamMessages\<close>, which creates \<^verbatim>\<open>timeoutPromise\<close> with its timer and enters
  the loop.
\<close>

definition stream_start ::
  "'j json_parser \<Rightarrow> WebSocketOptions \<Rightarrow> 'j stream_state \<Rightarrow> 'j stream_state"
where
  "stream_start parse opts s =
     processStreamMessages_loop parse (timeoutOf opts)
       (s\<lparr>ws := Some createWebSocket, queue := [], isConnectionClosed := False,
          timeoutTimer := Some (setTimeout (now s) (timeoutOf opts))\<rparr>)"

text \<open>
  The listeners of \<^verbatim>\<open>setupStreamHandlers\<close> and the one-shot listeners of the pending
  race.  The \<^verbatim>\<open>error\<close> listener throws inside the emitter: the exception goes to
  whoever emitted the event, not to the generator.
\<close>

definition wake :: "'j stream_state \<Rightarrow> 'j stream_state" where
  "wake s = (if control s = Awaiting then s\<lparr>control := RaceResolved\<rparr> else s)"

definition setupStreamHandlers :: "event \<Rightarrow> 'j stream_state \<Rightarrow> 'j stream_state" where
  "setupStreamHandlers e s =
     (case e of
        OpenEvent \<Rightarrow> s
      | MessageEvent d \<Rightarrow> wake (s\<lparr>queue := queue s @ [d], received := received s @ [d]\<rparr>)
      | CloseEvent \<Rightarrow> wake (s\<lparr>isConnectionClosed := True\<rparr>)
      | ErrorEvent x \<Rightarrow>
          s\<lparr>uncaught := uncaught s @ [WebSocketError ''WebSocket stream error'' (Some (SocketFault x))]\<rparr>)"

text \<open>The timer callback of \<^verbatim>\<open>processStreamMessages\<close> rejects \<^verbatim>\<open>timeoutPromise\<close>.\<close>

definition stream_timers :: "'j stream_state \<Rightarrow> 'j stream_state" where
  "stream_timers s =
     (case timeoutTimer s of
        None \<Rightarrow> s
      | Some t \<Rightarrow>
          if due t \<le> now s \<and> \<not> timeoutRejected s then
            s\<lparr>timeoutRejected := True,
              control := (if control s = Awaiting then RaceRejected else control s)\<rparr>
          else s)"

text \<open>
  What can happen to a generator: the environment acts, the consumer asks for the next
  item (\<^verbatim>\<open>next()\<close>, as \<^verbatim>\<open>for await\<close> does with one request at a time), the event loop
  resumes the generator after its race has settled, or the consumer abandons the
  sequence (\<^verbatim>\<open>return()\<close>, as \<^verbatim>\<open>break\<close> in \<^verbatim>\<open>for await\<close> does).  The resumption is
  an action of its own because events emitted in the same turn of the event loop reach
  their listeners before the generator continues.  Socket events are ignored before the
  socket exists.  An exception that left a listener is recorded and the run goes on, as
  it does under a process-level handler for uncaught exceptions.
\<close>

datatype action = Env occurrence | Next | Resume | Return

definition stream_step ::
  "'j json_parser \<Rightarrow> WebSocketOptions \<Rightarrow> 'j stream_state \<Rightarrow> action \<Rightarrow> 'j stream_state"
where
  "stream_step parse opts s a =
     (case a of
        Env (Elapse n) \<Rightarrow> stream_timers (s\<lparr>now := now s + n\<rparr>)
      | Env (Emit e) \<Rightarrow>
          (case ws s of
             None \<Rightarrow> s
           | Some w \<Rightarrow> setupStreamHandlers e (s\<lparr>ws := Some (emitting e w)\<rparr>))
      | Next \<Rightarrow>
          (case control s of
             NotStarted \<Rightarrow> stream_start parse opts s
           | AtYield \<Rightarrow> processStreamMessages_loop parse (timeoutOf opts) s
           | _ \<Rightarrow> s)
      | Resume \<Rightarrow>
          (case control s of
             RaceResolved \<Rightarrow> processStreamMessages_loop parse (timeoutOf opts) s
           | RaceRejected \<Rightarrow> stream_finally (Threw (timeoutError (timeoutOf opts))) s
           | _ \<Rightarrow> s)
      | Return \<Rightarrow>
          (case control s of
             NotStarted \<Rightarrow> s\<lparr>control := Finished Abandoned\<rparr>
           | AtYield \<Rightarrow> stream_finally Abandoned s
           | Finished out \<Rightarrow> s
           | _ \<Rightarrow> s\<lparr>returnRequested := True\<rparr>))"

definition stream_run ::
  "'j json_parser \<Rightarrow> WebSocketOptions \<Rightarrow> action list \<Rightarrow> 'j stream_state"
where
  "stream_run parse opts acts = foldl (stream_step parse opts) stream acts"

section \<open>Auxiliary notions for stating the properties\<close>

text \<open>
  \<open>n\<close> chained calls \<^verbatim>\<open>p.getNextPage().getNextPage()...\<close>, each on the page the call
  before resolved to; a call that resolves to \<^verbatim>\<open>null\<close> or is rejected ends the chain.
\<close>

fun getNextPage_chain ::
  "url_parser \<Rightarrow> ('v, 'm) CursorPaginatedResponse_scheme service \<Rightarrow> nat \<Rightarrow>
   ('v, ('v, 'm) CursorPaginatedResponse_scheme) paginated \<Rightarrow> request list \<Rightarrow>
   (error + ('v, ('v, 'm) CursorPaginatedResponse_scheme) paginated option) \<times> request list"
where
  "getNextPage_chain searchParams respond 0 p issued = (Inr (Some p), issued)"
| "getNextPage_chain searchParams respond (Suc n) p issued =
     (case getNextPage searchParams respond p issued of
        (Inr (Some q), issued') \<Rightarrow> getNextPage_chain searchParams respond n q issued'
      | r \<Rightarrow> r)"

text \<open>The time that passes in a list of occurrences, and the fragments it delivers.\<close>

fun elapsed :: "occurrence list \<Rightarrow> nat" where
  "elapsed [] = 0"
| "elapsed (Elapse n # occs) = n + elapsed occs"
| "elapsed (Emit e # occs) = elapsed occs"

fun fragments_of :: "occurrence list \<Rightarrow> string list" where
  "fragments_of [] = []"
| "fragments_of (Emit (MessageEvent d) # occs) = d # fragments_of occs"
| "fragments_of (occ # occs) = fragments_of occs"

text \<open>An occurrence that is neither the \<^verbatim>\<open>close\<close> nor the \<^verbatim>\<open>error\<close> event.\<close>

fun quiet :: "occurrence \<Rightarrow> bool" where
  "quiet (Emit CloseEvent) = False"
| "quiet (Emit (ErrorEvent x)) = False"
| "quiet occ = True"


text \<open>
  Two invariants of a \<^verbatim>\<open>stream\<close> generator.  The first is about the socket and the
  consumer's \<^verbatim>\<open>return()\<close>: the generator calls \<^verbatim>\<open>close()\<close> at most once and only when
  it completes; a completed generator has a socket that is closing or closed; a started
  generator has a socket; a generator with a \<^verbatim>\<open>return()\<close> waiting is never suspended at
  \<^verbatim>\<open>yield\<close>; and a resolved race has left a fragment in the queue or the closed-flag set.
\<close>

definition teardown_inv :: "'j stream_state \<Rightarrow> bool" where
  "teardown_inv s \<longleftrightarrow>
     (case ws s of
        None \<Rightarrow> control s = NotStarted \<or> control s = Finished Abandoned
      | Some w \<Rightarrow>
          closeCalls w \<le> 1
          \<and> (readyState w = CLOSED \<longrightarrow> isConnectionClosed s)
          \<and> (case control s of
                NotStarted \<Rightarrow> False
              | Finished out \<Rightarrow>
                  (readyState w = CLOSING \<or> readyState w = CLOSED)
                  \<and> (closeCalls w = 0 \<longrightarrow> isConnectionClosed s)
              | _ \<Rightarrow> closeCalls w = 0))
     \<and> (returnRequested s \<longrightarrow> control s \<noteq> AtYield \<and> control s \<noteq> NotStarted)
     \<and> (control s = RaceResolved \<longrightarrow> queue s \<noteq> [] \<or> isConnectionClosed s)"

text \<open>
  The second is about the timer behind \<^verbatim>\<open>timeoutPromise\<close>: it exists from the start of
  the body on, with the configured delay; \<^verbatim>\<open>timeoutPromise\<close> is rejected only when the
  timer is due, and the generator fails with the timeout error only when
  \<^verbatim>\<open>timeoutPromise\<close> is rejected.
\<close>

definition timer_inv :: "nat \<Rightarrow> 'j stream_state \<Rightarrow> bool" where
  "timer_inv ms s \<longleftrightarrow>
     (case timeoutTimer s of
        None \<Rightarrow> control s = NotStarted \<or> control s = Finished Abandoned
      | Some t \<Rightarrow> control s \<noteq> NotStarted \<and> delay t = delay (setTimeout 0 ms)
          \<and> (timeoutRejected s \<longrightarrow> due t \<le> now s)
          \<and> (case raceInstalledAt s of None \<Rightarrow> True | Some r \<Rightarrow> armedAt t \<le> r))
     \<and> (timeoutTimer s = None \<longrightarrow> \<not> timeoutRejected s \<and> raceInstalledAt s = None)
     \<and> (control s = RaceRejected \<longrightarrow> timeoutRejected s)
     \<and> (control s = Finished (Threw (timeoutError ms)) \<longrightarrow> timeoutRejected s)
     \<and> (case timeoutTimer s of None \<Rightarrow> True | Some t \<Rightarrow> armedAt t \<le> now s)"

section \<open>Concrete scenarios\<close>

text \<open>
  A list endpoint with two pages of one item each.  The first page links to the second
  by a full URL; the stand-in for \<^verbatim>\<open>new URL\<close> knows the URLs of the scenarios, and the
  service answers with the second page when asked for \<^verbatim>\<open>page=2\<close>.
\<close>

definition demo_searchParams :: url_parser where
  "demo_searchParams u =
     (if u = ''https://api.swarmnode.ai/v1/stores/?page=2'' then Some [(''page'', ''2'')]
      else if u = ''https://api.swarmnode.ai/v1/stores/?b=2'' then Some [(''b'', ''2'')]
      else None)"

definition demo_service :: "'r \<Rightarrow> 'r \<Rightarrow> 'r service" where
  "demo_service first second issued req =
     (case snd req of
        None \<Rightarrow> Inr first
      | Some opts \<Rightarrow>
          (case query opts of
             None \<Rightarrow> Inr first
           | Some q \<Rightarrow> if q ''page'' = Some (Some ''2'') then Inr second else Inr first))"

definition demo_first :: "nat PagePaginatedResponse" where
  "demo_first =
     \<lparr>next = Some ''https://api.swarmnode.ai/v1/stores/?page=2'', previous = None,
      results = [1], total_count = 2, current_page = Some 1\<rparr>"

definition demo_second :: "nat PagePaginatedResponse" where
  "demo_second =
     \<lparr>next = None, previous = Some ''https://api.swarmnode.ai/v1/stores/?page=1'',
      results = [2], total_count = 2, current_page = Some 2\<rparr>"

definition demo_cursor_first :: "nat CursorPaginatedResponse" where
  "demo_cursor_first =
     \<lparr>next = Some ''https://api.swarmnode.ai/v1/stores/?page=2'', previous = None,
      results = [1]\<rparr>"

definition demo_cursor_second :: "nat CursorPaginatedResponse" where
  "demo_cursor_second =
     \<lparr>next = None, previous = Some ''https://api.swarmnode.ai/v1/stores/?page=1'',
      results = [2]\<rparr>"

definition demo_page :: "nat Page" where
  "demo_page =
     \<lparr>path = ''/v1/stores/'', response = demo_first, options = None, transformer = None\<rparr>"

definition demo_cursor_page :: "nat CursorPage" where
  "demo_cursor_page =
     \<lparr>path = ''/v1/stores/'', response = demo_cursor_first, options = None,
      transformer = None\<rparr>"

definition demo_page_two_request :: request where
  "demo_page_two_request =
     (''/v1/stores/'',
      Some \<lparr>timeout = None, query = Some [''page'' \<mapsto> Some ''2''], body = None,
            headers = None, signal = None\<rparr>)"

text \<open>The same first page with a transform attached.\<close>

definition demo_decorated_page :: "nat Page" where
  "demo_decorated_page = demo_page\<lparr>transformer := Some (\<lambda>n. 10 * n)\<rparr>"

text \<open>
  A page fetched with a query, custom headers, a signal and a timeout, whose \<open>next\<close>
  carries another query; and a page whose \<open>next\<close> is the empty string.
\<close>

definition demo_options :: RequestOptions where
  "demo_options =
     \<lparr>timeout = Some 30000, query = Some [''a'' \<mapsto> Some ''1''], body = None,
      headers = Some [''X-Trace'' \<mapsto> ''t1''], signal = Some 7\<rparr>"

definition demo_queried_page :: "nat CursorPage" where
  "demo_queried_page =
     \<lparr>path = ''/v1/stores/'',
      response = \<lparr>next = Some ''https://api.swarmnode.ai/v1/stores/?b=2'', previous = None,
                  results = [1]\<rparr>,
      options = Some demo_options, transformer = None\<rparr>"

definition demo_empty_next_page :: "nat CursorPage" where
  "demo_empty_next_page =
     \<lparr>path = ''/v1/stores/'',
      response = \<lparr>next = Some [], previous = None, results = [1]\<rparr>,
      options = None, transformer = None\<rparr>"

text \<open>
  A stand-in for \<^verbatim>\<open>JSON.parse\<close> that knows the documents of the scenarios, and a
  10 ms timeout.
\<close>

definition demo_parse :: "json json_parser" where
  "demo_parse text =
     map_of
       [(''{\"a\":1}'', JObject [(''a'', JNumber 1)]),
        (''{\"x\":1}'', JObject [(''x'', JNumber 1)]),
        (''{\"x\":2}'', JObject [(''x'', JNumber 2)])] text"

definition demo_timeout :: WebSocketOptions where
  "demo_timeout = \<lparr>timeout = Some 10\<rparr>"

definition no_options :: WebSocketOptions where
  "no_options = \<lparr>timeout = None\<rparr>"

section \<open>Pagination: properties\<close>

lemmas pagination_defs =
  getNextPage_def client_get_def nextOptions_def spread_def emptyOptions_def fromEntries_def
  hasNextPage_def getItems_def

lemmas demo_pagination_defs =
  demo_searchParams_def demo_service_def demo_first_def demo_second_def demo_cursor_first_def
  demo_cursor_second_def demo_page_def demo_cursor_page_def demo_page_two_request_def
  demo_decorated_page_def demo_options_def demo_queried_page_def demo_empty_next_page_def

lemma getNextPage_Some:
  assumes "getNextPage searchParams respond p issued = (Inr (Some q), issued')"
  shows "transformer q = transformer p \<and> path q = path p
         \<and> issued' = issued @ [(path p, options q)]
         \<and> respond issued (path p, options q) = Inr (response q)"
  using assms
  by (auto simp: getNextPage_def client_get_def split: option.splits if_splits sum.splits)

lemma getNextPage_chain_Some:
  "getNextPage_chain searchParams respond n p issued = (Inr (Some q), issued') \<Longrightarrow>
     transformer q = transformer p \<and> path q = path p \<and>
     (0 < n \<longrightarrow> issued' \<noteq> [] \<and> respond (butlast issued') (last issued') = Inr (response q))"
proof (induction n arbitrary: p issued)
  case 0
  then show ?case by simp
next
  case (Suc n)
  from Suc.prems obtain r i where
    step: "getNextPage searchParams respond p issued = (Inr (Some r), i)"
    and rest: "getNextPage_chain searchParams respond n r i = (Inr (Some q), issued')"
    by (auto split: prod.splits sum.splits option.splits)
  note s = getNextPage_Some [OF step]
  note ih = Suc.IH [OF rest]
  show ?case
  proof (cases n)
    case 0
    with rest have "q = r" "issued' = i" by simp_all
    with s show ?thesis by simp
  next
    case (Suc k)
    with ih s show ?thesis by simp
  qed
qed

text \<open>
  C6.  \<^verbatim>\<open>getItems\<close> is the transform applied to each raw result in order, or the raw
  results when no transform is attached.  After any positive number of chained
  \<^verbatim>\<open>getNextPage\<close> calls that reach a page, that page holds the response the service gave
  to the last request, and its items are the transform of the first page applied to
  each of that response's results: the transform is carried along.
\<close>

theorem transform_propagation:
  "getItems p =
     (case transformer p of Some f \<Rightarrow> map f (results (response p)) | None \<Rightarrow> results (response p))
   \<and> (\<forall>q issued'.
        getNextPage_chain searchParams respond (Suc n) p issued = (Inr (Some q), issued') \<longrightarrow>
          respond (butlast issued') (last issued') = Inr (response q) \<and>
          getItems q =
            (case transformer p of
               Some f \<Rightarrow> map f (results (response q))
             | None \<Rightarrow> results (response q)))"
proof (intro conjI allI impI)
  show "getItems p =
     (case transformer p of Some f \<Rightarrow> map f (results (response p)) | None \<Rightarrow> results (response p))"
    by (simp add: getItems_def)
next
  fix q issued'
  assume a: "getNextPage_chain searchParams respond (Suc n) p issued = (Inr (Some q), issued')"
  from getNextPage_chain_Some [OF a]
  show "respond (butlast issued') (last issued') = Inr (response q)" by simp
  from getNextPage_chain_Some [OF a]
  show "getItems q =
            (case transformer p of
               Some f \<Rightarrow> map f (results (response q))
             | None \<Rightarrow> results (response q))"
    by (simp add: getItems_def)
qed

theorem transform_propagation_witness:
  "getNextPage_chain demo_searchParams (demo_service demo_first demo_second) (Suc 0)
     demo_decorated_page []
   = (Inr (Some (demo_decorated_page\<lparr>response := demo_second,
                   options := snd demo_page_two_request\<rparr>)),
      [demo_page_two_request])
   \<and> getItems (demo_decorated_page\<lparr>response := demo_second,
                   options := snd demo_page_two_request\<rparr>) = [20]"
proof -
  have run: "getNextPage_chain demo_searchParams (demo_service demo_first demo_second) (Suc 0)
     demo_decorated_page []
   = (Inr (Some (demo_decorated_page\<lparr>response := demo_second,
                   options := snd demo_page_two_request\<rparr>)),
      [demo_page_two_request])"
    by (simp add: pagination_defs demo_pagination_defs)
  from transform_propagation [where p = demo_decorated_page and n = 0 and issued = "[]"
      and searchParams = demo_searchParams and respond = "demo_service demo_first demo_second"] run
  have "getItems (demo_decorated_page\<lparr>response := demo_second,
                   options := snd demo_page_two_request\<rparr>) =
          map (\<lambda>n. 10 * n) (results demo_second)"
    by (simp add: demo_decorated_page_def)
  with run show ?thesis by (simp add: demo_second_def)
qed

text \<open>
  What the traversal does on a chain of \<open>n + 1\<close> pages that ends in a page without
  successor: it ends without error, has issued the \<open>n\<close> requests of the chain, and has
  yielded the items of the first page \<open>n + 1\<close> times.
\<close>

lemma getNextPage_Some_hasNextPage:
  "getNextPage searchParams respond p issued = (Inr (Some q), issued') \<Longrightarrow> hasNextPage p"
  by (auto simp: getNextPage_def hasNextPage_def split: option.splits if_splits)

lemma asyncIterator_loop_chain:
  "getNextPage_chain searchParams respond n s issued = (Inr (Some q), issued') \<Longrightarrow>
   \<not> hasNextPage q \<Longrightarrow>
     asyncIterator_loop searchParams respond this (Some s) acc issued =
       Some (acc @ concat (replicate (Suc n) (getItems this)), None, issued')"
proof (induction n arbitrary: s issued acc)
  case 0
  then show ?case by (subst asyncIterator_loop.simps) simp
next
  case (Suc n)
  from Suc.prems(1) obtain r i where
    step: "getNextPage searchParams respond s issued = (Inr (Some r), i)"
    and rest: "getNextPage_chain searchParams respond n r i = (Inr (Some q), issued')"
    by (auto split: prod.splits sum.splits option.splits)
  from getNextPage_Some_hasNextPage [OF step] have "hasNextPage s" .
  with step Suc.IH [OF rest Suc.prems(2), of "acc @ getItems this"]
  show ?case by (subst asyncIterator_loop.simps) simp
qed

lemma asyncIterator_yields_first_page_only:
  "getNextPage_chain searchParams respond n this issued = (Inr (Some q), issued') \<Longrightarrow>
   \<not> hasNextPage q \<Longrightarrow>
     asyncIterator searchParams respond this issued =
       Some (concat (replicate (Suc n) (getItems this)), None, issued')"
  using asyncIterator_loop_chain [of searchParams respond n this issued q issued' this "[]"]
  by (simp add: asyncIterator_def)

text \<open>
  C1.  The claim says that the traversal yields the items of every page of the chain in
  order.  On a chain of two pages, for \<^verbatim>\<open>Page\<close> and for \<^verbatim>\<open>CursorPage\<close>, with items
  \<open>[1]\<close> and \<open>[2]\<close>: the traversal ends without error after one request, the second
  page is fetched and its items are \<open>[2]\<close>, but the items yielded are \<open>[1, 1]\<close>, because
  each round of the loop yields \<^verbatim>\<open>this.getItems()\<close>, the items of the page the traversal
  began on, and not those of the page the loop variable has reached.
\<close>

theorem asyncIterator_repeats_first_page:
  "asyncIterator demo_searchParams (demo_service demo_first demo_second) demo_page []
     = Some ([1, 1], None, [demo_page_two_request])
   \<and> getNextPage demo_searchParams (demo_service demo_first demo_second) demo_page []
     = (Inr (Some (demo_page\<lparr>response := demo_second, options := snd demo_page_two_request\<rparr>)),
        [demo_page_two_request])
   \<and> getItems demo_page
       @ getItems (demo_page\<lparr>response := demo_second, options := snd demo_page_two_request\<rparr>)
     = [1, 2]
   \<and> asyncIterator demo_searchParams (demo_service demo_cursor_first demo_cursor_second)
        demo_cursor_page []
     = Some ([1, 1], None, [demo_page_two_request])
   \<and> getNextPage demo_searchParams (demo_service demo_cursor_first demo_cursor_second)
        demo_cursor_page []
     = (Inr (Some (demo_cursor_page\<lparr>response := demo_cursor_second,
                     options := snd demo_page_two_request\<rparr>)),
        [demo_page_two_request])
   \<and> getItems demo_cursor_page
       @ getItems (demo_cursor_page\<lparr>response := demo_cursor_second,
                     options := snd demo_page_two_request\<rparr>)
     = [1, 2]"
  by (simp add: asyncIterator_def asyncIterator_loop.simps pagination_defs demo_pagination_defs)







section \<open>\<^verbatim>\<open>listen\<close>: properties\<close>

lemma elapsed_append: "elapsed (xs @ ys) = elapsed xs + elapsed ys"
  by (induction xs rule: elapsed.induct) simp_all

lemma fragments_of_append: "fragments_of (xs @ ys) = fragments_of xs @ fragments_of ys"
  by (induction xs rule: fragments_of.induct) simp_all

lemma listen_run_snoc:
  "listen_run parse opts (occs @ [occ]) = listen_step parse opts (listen_run parse opts occs) occ"
  by (simp add: listen_run_def)

lemma timeoutError_default:
  "timeoutError DEFAULT_TIMEOUT =
     WebSocketError ''WebSocket connection timed out after 600000ms'' None"
  by (simp add: timeoutError_def DEFAULT_TIMEOUT_def)

lemma delay_setTimeout_pos: "0 < delay (setTimeout c ms)"
  by (simp add: setTimeout_def)

lemma closeCalls_emitting [simp]: "closeCalls (emitting e w) = closeCalls w"
  by (cases e) (simp_all add: emitting_def)

lemma readyState_emitting:
  "readyState (emitting e w) =
     (case e of
        OpenEvent \<Rightarrow> if readyState w = CONNECTING then OPEN else readyState w
      | CloseEvent \<Rightarrow> CLOSED
      | _ \<Rightarrow> readyState w)"
  by (cases e) (simp_all add: emitting_def)

text \<open>While nothing terminal has happened and the timer is not due.\<close>

lemma listen_quiet_before_due:
  "list_all quiet occs \<Longrightarrow> elapsed occs < due (setTimeout 0 (timeoutOf opts)) \<Longrightarrow>
     promise (listen_run parse opts occs) = Pending
     \<and> timeoutId (listen_run parse opts occs) = Some (setTimeout 0 (timeoutOf opts))
     \<and> chunks (listen_run parse opts occs) = fragments_of occs
     \<and> now (listen_run parse opts occs) = elapsed occs
     \<and> (\<exists>w. ws (listen_run parse opts occs) = Some w \<and> closeCalls w = 0
            \<and> readyState w \<noteq> CLOSED \<and> readyState w \<noteq> CLOSING)"
proof (induction occs rule: rev_induct)
  case Nil
  then show ?case by (simp add: listen_run_def listen_def createWebSocket_def)
next
  case (snoc occ occs)
  from snoc.prems have q: "list_all quiet occs" "quiet occ"
    and e: "elapsed occs + elapsed [occ] < due (setTimeout 0 (timeoutOf opts))"
    by (simp_all add: elapsed_append)
  then have "elapsed occs < due (setTimeout 0 (timeoutOf opts))" by simp
  note ih = snoc.IH [OF q(1) this]
  show ?case
  proof (cases occ)
    case (Elapse n)
    with ih e show ?thesis
      by (auto simp: listen_run_snoc listen_step_def Let_def elapsed_append fragments_of_append)
  next
    case (Emit ev)
    with ih q(2) show ?thesis
      by (cases ev)
        (auto simp: listen_run_snoc listen_step_def Let_def elapsed_append fragments_of_append
          readyState_emitting)
  qed
qed





text \<open>
  C7.  When the socket closes before any other terminal occurrence (no \<^verbatim>\<open>error\<close> event,
  timer not yet due), the promise settles by the fragments received so far, joined in
  arrival order: if the joined text is empty (in particular when no fragment arrived)
  it is rejected with the "closed without receiving any message" error; otherwise the
  joined text is parsed as one JSON document and the promise is resolved with the
  decoded value, or rejected with the "failed to parse as JSON" error when it is not
  valid JSON.  The two errors differ.  The fragments \<^verbatim>\<open>{"a":\<close> and \<^verbatim>\<open>1}\<close> resolve to what
  \<^verbatim>\<open>{"a":1}\<close> decodes to.
\<close>

theorem listen_close:
  "(\<forall>occs. list_all quiet occs \<and> elapsed occs < due (setTimeout 0 (timeoutOf opts)) \<longrightarrow>
      promise (listen_run parse opts (occs @ [Emit CloseEvent])) =
        (if concat (fragments_of occs) = [] then
           Rejected (WebSocketError ''Connection closed without receiving any message'' None)
         else
           (case parse (concat (fragments_of occs)) of
              Some v \<Rightarrow> Resolved v
            | None \<Rightarrow>
                Rejected (WebSocketError ''Failed to parse WebSocket message as JSON''
                            (Some SyntaxError)))))
   \<and> WebSocketError ''Connection closed without receiving any message'' None
       \<noteq> WebSocketError ''Failed to parse WebSocket message as JSON'' (Some SyntaxError)
   \<and> (parse ''{\"a\":1}'' = Some v \<longrightarrow>
        promise (listen_run parse opts
          [Emit OpenEvent, Emit (MessageEvent ''{\"a\":''), Emit (MessageEvent ''1}''),
           Emit CloseEvent]) = Resolved v)"
proof -
  have main: "promise (listen_run parse opts (occs @ [Emit CloseEvent])) =
        (if concat (fragments_of occs) = [] then
           Rejected (WebSocketError ''Connection closed without receiving any message'' None)
         else
           (case parse (concat (fragments_of occs)) of
              Some v \<Rightarrow> Resolved v
            | None \<Rightarrow>
                Rejected (WebSocketError ''Failed to parse WebSocket message as JSON''
                            (Some SyntaxError))))"
    if "list_all quiet occs" "elapsed occs < due (setTimeout 0 (timeoutOf opts))" for occs
    using listen_quiet_before_due [OF that, of parse]
    by (auto simp: listen_run_snoc listen_step_def Let_def handleWebSocketClose_def reject_def
        resolve_def parseError_def split: option.splits)
  have "0 < due (setTimeout 0 (timeoutOf opts))"
    using delay_setTimeout_pos [of 0 "timeoutOf opts"] by (simp add: due_def)
  then have "promise (listen_run parse opts
          ([Emit OpenEvent, Emit (MessageEvent ''{\"a\":''), Emit (MessageEvent ''1}'')]
           @ [Emit CloseEvent])) = Resolved v" if "parse ''{\"a\":1}'' = Some v"
    using that by (subst main) simp_all
  with main show ?thesis by simp
qed

theorem listen_close_witness:
  "list_all quiet [Emit OpenEvent, Elapse 250, Emit (MessageEvent ''{\"x\":''), Emit (MessageEvent ''2}'')]
   \<and> elapsed [Emit OpenEvent, Elapse 250, Emit (MessageEvent ''{\"x\":''), Emit (MessageEvent ''2}'')]
       < due (setTimeout 0 (timeoutOf no_options))
   \<and> promise (listen_run demo_parse no_options
        [Emit OpenEvent, Elapse 250, Emit (MessageEvent ''{\"x\":''), Emit (MessageEvent ''2}''),
         Emit CloseEvent])
       = Resolved (JObject [(''x'', JNumber 2)])
   \<and> demo_parse ''{\"a\":1}'' = Some (JObject [(''a'', JNumber 1)])
   \<and> promise (listen_run demo_parse no_options
        [Emit OpenEvent, Emit (MessageEvent ''{\"a\":''), Emit (MessageEvent ''1}''),
         Emit CloseEvent])
       = Resolved (JObject [(''a'', JNumber 1)])"
  using listen_close [where parse = demo_parse and opts = no_options
      and v = "JObject [(''a'', JNumber 1)]",
      THEN conjunct1, rule_format,
      of "[Emit OpenEvent, Elapse 250, Emit (MessageEvent ''{\"x\":''), Emit (MessageEvent ''2}'')]"]
    listen_close [where parse = demo_parse and opts = no_options
      and v = "JObject [(''a'', JNumber 1)]", THEN conjunct2, THEN conjunct2]
  by (simp add: demo_parse_def no_options_def timeoutOf_def DEFAULT_TIMEOUT_def setTimeout_def
      due_def)



section \<open>\<^verbatim>\<open>stream\<close>: properties\<close>

lemma stream_run_snoc:
  "stream_run parse opts (acts @ [a]) = stream_step parse opts (stream_run parse opts acts) a"
  by (simp add: stream_run_def)

lemma stream_run_invariant:
  assumes "P stream" and "\<And>s a. P s \<Longrightarrow> P (stream_step parse opts s a)"
  shows "P (stream_run parse opts acts)"
proof (induction acts rule: rev_induct)
  case Nil
  from assms(1) show ?case by (simp add: stream_run_def)
next
  case (snoc a acts)
  from assms(2) [OF snoc.IH] show ?case by (simp add: stream_run_snoc)
qed

lemma stream_run_append:
  "stream_run parse opts (acts @ later) =
     foldl (stream_step parse opts) (stream_run parse opts acts) later"
  by (simp add: stream_run_def)

lemmas stream_defs = stream_run_def stream_step_def stream_def stream_start_def
  processStreamMessages_loop_def yield_def stream_finally_def setupStreamHandlers_def
  wake_def stream_timers_def emitting_def close_def createWebSocket_def setTimeout_def
  due_def timeoutOf_def

lemma teardown_inv_finally:
  "teardown_inv s \<Longrightarrow> (\<forall>o'. control s \<noteq> Finished o') \<Longrightarrow> control s \<noteq> NotStarted \<Longrightarrow>
     (\<And>w. ws s = Some w \<Longrightarrow> ws s' = Some w) \<Longrightarrow> (ws s = None \<Longrightarrow> ws s' = None) \<Longrightarrow>
     isConnectionClosed s' = isConnectionClosed s \<Longrightarrow>
     teardown_inv (stream_finally out s')"
  by (cases "ws s"; cases "control s")
    (auto simp: teardown_inv_def stream_finally_def close_def split: option.splits)

lemma teardown_inv_loop:
  "teardown_inv s \<Longrightarrow> (\<forall>o'. control s \<noteq> Finished o') \<Longrightarrow> control s \<noteq> NotStarted \<Longrightarrow>
     teardown_inv (processStreamMessages_loop parse ms s)"
  unfolding processStreamMessages_loop_def yield_def
  apply (cases "ws s"; cases "control s")
  apply (auto simp: teardown_inv_def stream_finally_def close_def split: option.splits list.splits)
  done

lemma teardown_inv_start:
  "teardown_inv s \<Longrightarrow> control s = NotStarted \<Longrightarrow> teardown_inv (stream_start parse opts s)"
  unfolding stream_start_def processStreamMessages_loop_def yield_def
  by (auto simp: teardown_inv_def stream_finally_def close_def createWebSocket_def
      split: option.splits list.splits)

lemma teardown_inv_handlers:
  "teardown_inv s \<Longrightarrow> ws s = Some w \<Longrightarrow>
     teardown_inv (setupStreamHandlers e (s\<lparr>ws := Some (emitting e w)\<rparr>))"
  by (cases e; cases "control s")
    (auto simp: teardown_inv_def setupStreamHandlers_def wake_def readyState_emitting)

lemma teardown_inv_timers:
  "teardown_inv s \<Longrightarrow> teardown_inv (stream_timers (s\<lparr>now := now s + n\<rparr>))"
  by (cases "control s")
    (auto simp: teardown_inv_def stream_timers_def split: option.splits)

lemma teardown_inv_step:
  assumes "teardown_inv s"
  shows "teardown_inv (stream_step parse opts s a)"
proof (cases a)
  case (Env occ)
  show ?thesis
  proof (cases occ)
    case (Elapse n)
    with Env teardown_inv_timers [OF assms] show ?thesis by (simp add: stream_step_def)
  next
    case (Emit e)
    with Env assms teardown_inv_handlers [OF assms] show ?thesis
      by (cases "ws s") (simp_all add: stream_step_def)
  qed
next
  case Next
  show ?thesis
  proof (cases "control s")
    case NotStarted
    with Next teardown_inv_start [OF assms] show ?thesis by (simp add: stream_step_def)
  next
    case AtYield
    with Next teardown_inv_loop [OF assms] show ?thesis by (simp add: stream_step_def)
  qed (use Next assms in \<open>simp_all add: stream_step_def\<close>)
next
  case Resume
  show ?thesis
  proof (cases "control s")
    case RaceResolved
    with Resume teardown_inv_loop [OF assms] show ?thesis by (simp add: stream_step_def)
  next
    case RaceRejected
    with Resume teardown_inv_finally [OF assms, of s] show ?thesis by (simp add: stream_step_def)
  qed (use Resume assms in \<open>simp_all add: stream_step_def\<close>)
next
  case Return
  show ?thesis
  proof (cases "control s")
    case NotStarted
    with Return assms show ?thesis
      by (auto simp: stream_step_def teardown_inv_def split: option.splits)
  next
    case AtYield
    with Return teardown_inv_finally [OF assms, of s] show ?thesis by (simp add: stream_step_def)
  next
    case (Finished out)
    with Return assms show ?thesis by (simp add: stream_step_def)
  qed (use Return assms in \<open>auto simp: stream_step_def teardown_inv_def split: option.splits\<close>)
qed

lemma teardown_inv_run: "teardown_inv (stream_run parse opts acts)"
proof (rule stream_run_invariant)
  show "teardown_inv (stream :: 'a stream_state)" by (simp add: teardown_inv_def stream_def)
qed (rule teardown_inv_step)

text \<open>What the consumer's \<^verbatim>\<open>return()\<close> does to a generator suspended at \<^verbatim>\<open>yield\<close>.\<close>

lemma return_at_yield:
  assumes "teardown_inv s" "control s = AtYield"
  shows "control (stream_step parse opts s Return) = Finished Abandoned
    \<and> (\<exists>w. ws (stream_step parse opts s Return) = Some w
          \<and> (readyState w = CLOSING \<or> readyState w = CLOSED) \<and> closeCalls w \<le> 1)"
  using assms
  by (cases "ws s")
    (auto simp: teardown_inv_def stream_step_def stream_finally_def close_def)

text \<open>A generator with a \<^verbatim>\<open>return()\<close> waiting completes when its body runs again.\<close>

lemma resume_with_return_waiting:
  assumes "teardown_inv s" "returnRequested s" "control s = RaceResolved \<or> control s = RaceRejected"
  shows "\<exists>out. control (stream_step parse opts s Resume) = Finished out"
  using assms
  by (auto simp: teardown_inv_def stream_step_def processStreamMessages_loop_def yield_def
      stream_finally_def split: list.splits option.splits)

text \<open>The ways out of the loop end in the \<^verbatim>\<open>finally\<close> block.\<close>

lemma loop_exits:
  "isConnectionClosed s \<Longrightarrow>
     control (processStreamMessages_loop parse ms s) = Finished Exhausted"
  "\<not> isConnectionClosed s \<Longrightarrow> queue s = fragment # rest \<Longrightarrow> parse fragment = None \<Longrightarrow>
     control (processStreamMessages_loop parse ms s) = Finished (Threw parseError)"
  by (simp_all add: processStreamMessages_loop_def stream_finally_def)

text \<open>
  C10.  Whatever happens to a \<^verbatim>\<open>stream\<close> generator, \<^verbatim>\<open>close()\<close> is called at most once
  on its socket, and not at all before the generator completes.  Once the generator has
  completed, by exhaustion, by the consumer abandoning it or by an error, the socket is
  closing or closed; if \<^verbatim>\<open>close()\<close> was not called, the \<^verbatim>\<open>close\<close> event had already
  been observed.  Every way out reaches that state.  The consumer's \<^verbatim>\<open>return()\<close> on a
  generator suspended at \<^verbatim>\<open>yield\<close> completes it at once with the socket closing or
  closed; on a generator that has not started it completes it without a socket ever
  being created; while a request is being served it is kept waiting, a generator with
  a \<^verbatim>\<open>return()\<close> waiting is never left suspended at \<^verbatim>\<open>yield\<close>, and it completes when
  its body runs again.  With the closed-flag set the next run of the body completes the
  generator as exhausted; a rejected race and a fragment that does not parse complete
  it with the error.
\<close>

theorem stream_teardown:
  "(\<forall>w. ws (stream_run parse opts acts) = Some w \<longrightarrow>
     closeCalls w \<le> 1
     \<and> (\<forall>out. control (stream_run parse opts acts) = Finished out \<longrightarrow>
          (readyState w = CLOSING \<or> readyState w = CLOSED)
          \<and> (closeCalls w = 0 \<longrightarrow> isConnectionClosed (stream_run parse opts acts)))
     \<and> ((\<forall>out. control (stream_run parse opts acts) \<noteq> Finished out) \<longrightarrow> closeCalls w = 0))
   \<and> (control (stream_run parse opts acts) = AtYield \<longrightarrow>
        control (stream_run parse opts (acts @ [Return])) = Finished Abandoned
        \<and> (\<exists>w. ws (stream_run parse opts (acts @ [Return])) = Some w
              \<and> (readyState w = CLOSING \<or> readyState w = CLOSED) \<and> closeCalls w \<le> 1))
   \<and> (control (stream_run parse opts acts) = NotStarted \<longrightarrow>
        control (stream_run parse opts (acts @ [Return])) = Finished Abandoned
        \<and> ws (stream_run parse opts (acts @ [Return])) = None)
   \<and> (control (stream_run parse opts acts) = Awaiting
        \<or> control (stream_run parse opts acts) = RaceResolved
        \<or> control (stream_run parse opts acts) = RaceRejected \<longrightarrow>
        returnRequested (stream_run parse opts (acts @ [Return]))
        \<and> control (stream_run parse opts (acts @ [Return])) = control (stream_run parse opts acts))
   \<and> (returnRequested (stream_run parse opts acts) \<longrightarrow>
        control (stream_run parse opts acts) \<noteq> AtYield
        \<and> control (stream_run parse opts acts) \<noteq> NotStarted)
   \<and> (returnRequested (stream_run parse opts acts)
        \<and> (control (stream_run parse opts acts) = RaceResolved
             \<or> control (stream_run parse opts acts) = RaceRejected) \<longrightarrow>
        (\<exists>out. control (stream_run parse opts (acts @ [Resume])) = Finished out))
   \<and> (isConnectionClosed (stream_run parse opts acts)
        \<and> control (stream_run parse opts acts) = AtYield \<longrightarrow>
        control (stream_run parse opts (acts @ [Next])) = Finished Exhausted)
   \<and> (isConnectionClosed (stream_run parse opts acts)
        \<and> control (stream_run parse opts acts) = RaceResolved \<longrightarrow>
        control (stream_run parse opts (acts @ [Resume])) = Finished Exhausted)
   \<and> (control (stream_run parse opts acts) = RaceRejected \<longrightarrow>
        control (stream_run parse opts (acts @ [Resume]))
          = Finished (Threw (timeoutError (timeoutOf opts))))
   \<and> (\<forall>fragment rest.
        \<not> isConnectionClosed (stream_run parse opts acts)
        \<and> queue (stream_run parse opts acts) = fragment # rest \<and> parse fragment = None \<longrightarrow>
        (control (stream_run parse opts acts) = AtYield \<longrightarrow>
           control (stream_run parse opts (acts @ [Next])) = Finished (Threw (WebSocketError ''Failed to parse WebSocket message as JSON'' (Some SyntaxError))))
        \<and> (control (stream_run parse opts acts) = RaceResolved \<longrightarrow>
           control (stream_run parse opts (acts @ [Resume])) = Finished (Threw (WebSocketError ''Failed to parse WebSocket message as JSON'' (Some SyntaxError)))))"
proof -
  let ?s = "stream_run parse opts acts"
  note inv = teardown_inv_run [of parse opts acts]
  have c1: "\<forall>w. ws ?s = Some w \<longrightarrow>
     closeCalls w \<le> 1
     \<and> (\<forall>out. control ?s = Finished out \<longrightarrow>
          (readyState w = CLOSING \<or> readyState w = CLOSED)
          \<and> (closeCalls w = 0 \<longrightarrow> isConnectionClosed ?s))
     \<and> ((\<forall>out. control ?s \<noteq> Finished out) \<longrightarrow> closeCalls w = 0)"
    using inv by (cases "control ?s") (auto simp: teardown_inv_def split: option.splits)
  have c2: "control ?s = AtYield \<longrightarrow>
        control (stream_run parse opts (acts @ [Return])) = Finished Abandoned
        \<and> (\<exists>w. ws (stream_run parse opts (acts @ [Return])) = Some w
              \<and> (readyState w = CLOSING \<or> readyState w = CLOSED) \<and> closeCalls w \<le> 1)"
    using return_at_yield [OF inv, of parse opts] by (simp add: stream_run_snoc)
  have c3: "control ?s = NotStarted \<longrightarrow>
        control (stream_run parse opts (acts @ [Return])) = Finished Abandoned
        \<and> ws (stream_run parse opts (acts @ [Return])) = None"
    using inv
    by (auto simp: stream_run_snoc stream_step_def teardown_inv_def split: option.splits)
  have c4: "control ?s = Awaiting \<or> control ?s = RaceResolved \<or> control ?s = RaceRejected \<longrightarrow>
        returnRequested (stream_run parse opts (acts @ [Return]))
        \<and> control (stream_run parse opts (acts @ [Return])) = control ?s"
    by (auto simp: stream_run_snoc stream_step_def)
  have c5: "returnRequested ?s \<longrightarrow> control ?s \<noteq> AtYield \<and> control ?s \<noteq> NotStarted"
    using inv by (simp add: teardown_inv_def)
  have c6: "returnRequested ?s \<and> (control ?s = RaceResolved \<or> control ?s = RaceRejected) \<longrightarrow>
        (\<exists>out. control (stream_run parse opts (acts @ [Resume])) = Finished out)"
    using resume_with_return_waiting [OF inv, of parse opts] by (simp add: stream_run_snoc)
  have c7: "isConnectionClosed ?s \<and> control ?s = AtYield \<longrightarrow>
        control (stream_run parse opts (acts @ [Next])) = Finished Exhausted"
    by (auto simp: stream_run_snoc stream_step_def loop_exits)
  have c8: "isConnectionClosed ?s \<and> control ?s = RaceResolved \<longrightarrow>
        control (stream_run parse opts (acts @ [Resume])) = Finished Exhausted"
    by (auto simp: stream_run_snoc stream_step_def loop_exits)
  have c9: "control ?s = RaceRejected \<longrightarrow>
        control (stream_run parse opts (acts @ [Resume]))
          = Finished (Threw (timeoutError (timeoutOf opts)))"
    by (auto simp: stream_run_snoc stream_step_def stream_finally_def)
  have c10: "\<forall>fragment rest.
        \<not> isConnectionClosed ?s \<and> queue ?s = fragment # rest \<and> parse fragment = None \<longrightarrow>
        (control ?s = AtYield \<longrightarrow>
           control (stream_run parse opts (acts @ [Next])) = Finished (Threw (WebSocketError ''Failed to parse WebSocket message as JSON'' (Some SyntaxError))))
        \<and> (control ?s = RaceResolved \<longrightarrow>
           control (stream_run parse opts (acts @ [Resume])) = Finished (Threw (WebSocketError ''Failed to parse WebSocket message as JSON'' (Some SyntaxError))))"
    by (auto simp: stream_run_snoc stream_step_def loop_exits parseError_def [symmetric])
  from c1 c2 c3 c4 c5 c6 c7 c8 c9 c10 show ?thesis by blast
qed

theorem stream_teardown_witness:
  "(ws (stream_run demo_parse demo_timeout [Next, Env (Emit OpenEvent), Env (Emit (MessageEvent ''{\"x\":1}'')), Resume, Return]) = Some \<lparr>readyState = CLOSING, closeCalls = 1\<rparr>
      \<and> control (stream_run demo_parse demo_timeout [Next, Env (Emit OpenEvent), Env (Emit (MessageEvent ''{\"x\":1}'')), Resume, Return]) = Finished Abandoned)
   \<and> (closeCalls \<lparr>readyState = CLOSING, closeCalls = 1\<rparr> \<le> 1
      \<and> (readyState \<lparr>readyState = CLOSING, closeCalls = 1\<rparr> = CLOSING
           \<or> readyState \<lparr>readyState = CLOSING, closeCalls = 1\<rparr> = CLOSED))
   \<and> (control (stream_run demo_parse demo_timeout [Next, Env (Emit OpenEvent), Env (Emit (MessageEvent ''{\"x\":1}'')), Resume]) = AtYield)
   \<and> (control (stream_run demo_parse demo_timeout ([Next, Env (Emit OpenEvent), Env (Emit (MessageEvent ''{\"x\":1}'')), Resume] @ [Return])) = Finished Abandoned
      \<and> (\<exists>w. ws (stream_run demo_parse demo_timeout ([Next, Env (Emit OpenEvent), Env (Emit (MessageEvent ''{\"x\":1}'')), Resume] @ [Return])) = Some w
            \<and> (readyState w = CLOSING \<or> readyState w = CLOSED) \<and> closeCalls w \<le> 1))
   \<and> (control (stream_run demo_parse demo_timeout []) = NotStarted)
   \<and> (control (stream_run demo_parse demo_timeout ([] @ [Return])) = Finished Abandoned
      \<and> ws (stream_run demo_parse demo_timeout ([] @ [Return])) = None)
   \<and> (control (stream_run demo_parse demo_timeout [Next, Env (Emit OpenEvent)]) = Awaiting)
   \<and> (returnRequested (stream_run demo_parse demo_timeout ([Next, Env (Emit OpenEvent)] @ [Return])))
   \<and> (returnRequested (stream_run demo_parse demo_timeout [Next, Env (Emit OpenEvent), Return]))
   \<and> (control (stream_run demo_parse demo_timeout [Next, Env (Emit OpenEvent), Return]) \<noteq> AtYield)
   \<and> (returnRequested (stream_run demo_parse demo_timeout [Next, Env (Emit OpenEvent), Return, Env (Emit (MessageEvent ''{\"x\":1}''))])
      \<and> control (stream_run demo_parse demo_timeout [Next, Env (Emit OpenEvent), Return, Env (Emit (MessageEvent ''{\"x\":1}''))]) = RaceResolved)
   \<and> (\<exists>out. control (stream_run demo_parse demo_timeout ([Next, Env (Emit OpenEvent), Return, Env (Emit (MessageEvent ''{\"x\":1}''))] @ [Resume])) = Finished out)
   \<and> (isConnectionClosed (stream_run demo_parse demo_timeout [Next, Env (Emit OpenEvent), Env (Emit (MessageEvent ''{\"x\":1}'')), Resume, Env (Emit CloseEvent)])
      \<and> control (stream_run demo_parse demo_timeout [Next, Env (Emit OpenEvent), Env (Emit (MessageEvent ''{\"x\":1}'')), Resume, Env (Emit CloseEvent)]) = AtYield)
   \<and> (control (stream_run demo_parse demo_timeout ([Next, Env (Emit OpenEvent), Env (Emit (MessageEvent ''{\"x\":1}'')), Resume, Env (Emit CloseEvent)] @ [Next])) = Finished Exhausted)
   \<and> (isConnectionClosed (stream_run demo_parse demo_timeout [Next, Env (Emit OpenEvent), Env (Emit CloseEvent)])
      \<and> control (stream_run demo_parse demo_timeout [Next, Env (Emit OpenEvent), Env (Emit CloseEvent)]) = RaceResolved)
   \<and> (control (stream_run demo_parse demo_timeout ([Next, Env (Emit OpenEvent), Env (Emit CloseEvent)] @ [Resume])) = Finished Exhausted)
   \<and> (control (stream_run demo_parse demo_timeout [Next, Env (Emit OpenEvent), Env (Elapse 10)]) = RaceRejected)
   \<and> (control (stream_run demo_parse demo_timeout ([Next, Env (Emit OpenEvent), Env (Elapse 10)] @ [Resume]))
        = Finished (Threw (timeoutError (timeoutOf demo_timeout))))
   \<and> (\<not> isConnectionClosed (stream_run demo_parse demo_timeout [Next, Env (Emit OpenEvent), Env (Emit (MessageEvent ''{\"x\":''))])
      \<and> queue (stream_run demo_parse demo_timeout [Next, Env (Emit OpenEvent), Env (Emit (MessageEvent ''{\"x\":''))]) = ''{\"x\":'' # []
      \<and> demo_parse ''{\"x\":'' = None
      \<and> control (stream_run demo_parse demo_timeout [Next, Env (Emit OpenEvent), Env (Emit (MessageEvent ''{\"x\":''))]) = RaceResolved)
   \<and> (control (stream_run demo_parse demo_timeout ([Next, Env (Emit OpenEvent), Env (Emit (MessageEvent ''{\"x\":''))] @ [Resume])) = Finished (Threw (WebSocketError ''Failed to parse WebSocket message as JSON'' (Some SyntaxError))))
   \<and> (\<not> isConnectionClosed (stream_run demo_parse demo_timeout [Next, Env (Emit OpenEvent), Env (Emit (MessageEvent ''{\"x\":1}'')), Resume, Env (Emit (MessageEvent ''{\"x\":''))])
      \<and> queue (stream_run demo_parse demo_timeout [Next, Env (Emit OpenEvent), Env (Emit (MessageEvent ''{\"x\":1}'')), Resume, Env (Emit (MessageEvent ''{\"x\":''))]) = ''{\"x\":'' # []
      \<and> control (stream_run demo_parse demo_timeout [Next, Env (Emit OpenEvent), Env (Emit (MessageEvent ''{\"x\":1}'')), Resume, Env (Emit (MessageEvent ''{\"x\":''))]) = AtYield)
   \<and> (control (stream_run demo_parse demo_timeout ([Next, Env (Emit OpenEvent), Env (Emit (MessageEvent ''{\"x\":1}'')), Resume, Env (Emit (MessageEvent ''{\"x\":''))] @ [Next])) = Finished (Threw (WebSocketError ''Failed to parse WebSocket message as JSON'' (Some SyntaxError))))"
proof -
  have h1: "ws (stream_run demo_parse demo_timeout [Next, Env (Emit OpenEvent), Env (Emit (MessageEvent ''{\"x\":1}'')), Resume, Return]) = Some \<lparr>readyState = CLOSING, closeCalls = 1\<rparr>
      \<and> control (stream_run demo_parse demo_timeout [Next, Env (Emit OpenEvent), Env (Emit (MessageEvent ''{\"x\":1}'')), Resume, Return]) = Finished Abandoned"
    by (simp add: stream_defs demo_parse_def demo_timeout_def)
  from stream_teardown [where parse = demo_parse and opts = demo_timeout
      and acts = "[Next, Env (Emit OpenEvent), Env (Emit (MessageEvent ''{\"x\":1}'')), Resume, Return]",
      THEN conjunct1] h1
  have c1: "closeCalls \<lparr>readyState = CLOSING, closeCalls = 1\<rparr> \<le> 1
      \<and> (readyState \<lparr>readyState = CLOSING, closeCalls = 1\<rparr> = CLOSING
           \<or> readyState \<lparr>readyState = CLOSING, closeCalls = 1\<rparr> = CLOSED)"
    by blast
  have h2: "control (stream_run demo_parse demo_timeout [Next, Env (Emit OpenEvent), Env (Emit (MessageEvent ''{\"x\":1}'')), Resume]) = AtYield"
    by (simp add: stream_defs demo_parse_def demo_timeout_def)
  from stream_teardown [where parse = demo_parse and opts = demo_timeout
      and acts = "[Next, Env (Emit OpenEvent), Env (Emit (MessageEvent ''{\"x\":1}'')), Resume]",
      THEN conjunct2, THEN conjunct1] h2
  have c2: "control (stream_run demo_parse demo_timeout ([Next, Env (Emit OpenEvent), Env (Emit (MessageEvent ''{\"x\":1}'')), Resume] @ [Return])) = Finished Abandoned
      \<and> (\<exists>w. ws (stream_run demo_parse demo_timeout ([Next, Env (Emit OpenEvent), Env (Emit (MessageEvent ''{\"x\":1}'')), Resume] @ [Return])) = Some w
            \<and> (readyState w = CLOSING \<or> readyState w = CLOSED) \<and> closeCalls w \<le> 1)"
    by blast
  have h3: "control (stream_run demo_parse demo_timeout []) = NotStarted"
    by (simp add: stream_defs demo_parse_def demo_timeout_def)
  from stream_teardown [where parse = demo_parse and opts = demo_timeout
      and acts = "[]",
      THEN conjunct2, THEN conjunct2, THEN conjunct1] h3
  have c3: "control (stream_run demo_parse demo_timeout ([] @ [Return])) = Finished Abandoned
      \<and> ws (stream_run demo_parse demo_timeout ([] @ [Return])) = None"
    by blast
  have h4: "control (stream_run demo_parse demo_timeout [Next, Env (Emit OpenEvent)]) = Awaiting"
    by (simp add: stream_defs demo_parse_def demo_timeout_def)
  from stream_teardown [where parse = demo_parse and opts = demo_timeout
      and acts = "[Next, Env (Emit OpenEvent)]",
      THEN conjunct2, THEN conjunct2, THEN conjunct2, THEN conjunct1] h4
  have c4: "returnRequested (stream_run demo_parse demo_timeout ([Next, Env (Emit OpenEvent)] @ [Return]))"
    by blast
  have h5: "returnRequested (stream_run demo_parse demo_timeout [Next, Env (Emit OpenEvent), Return])"
    by (simp add: stream_defs demo_parse_def demo_timeout_def)
  from stream_teardown [where parse = demo_parse and opts = demo_timeout
      and acts = "[Next, Env (Emit OpenEvent), Return]",
      THEN conjunct2, THEN conjunct2, THEN conjunct2, THEN conjunct2, THEN conjunct1] h5
  have c5: "control (stream_run demo_parse demo_timeout [Next, Env (Emit OpenEvent), Return]) \<noteq> AtYield"
    by blast
  have h6: "returnRequested (stream_run demo_parse demo_timeout [Next, Env (Emit OpenEvent), Return, Env (Emit (MessageEvent ''{\"x\":1}''))])
      \<and> control (stream_run demo_parse demo_timeout [Next, Env (Emit OpenEvent), Return, Env (Emit (MessageEvent ''{\"x\":1}''))]) = RaceResolved"
    by (simp add: stream_defs demo_parse_def demo_timeout_def)
  from stream_teardown [where parse = demo_parse and opts = demo_timeout
      and acts = "[Next, Env (Emit OpenEvent), Return, Env (Emit (MessageEvent ''{\"x\":1}''))]",
      THEN conjunct2, THEN conjunct2, THEN conjunct2, THEN conjunct2, THEN conjunct2, THEN conjunct1] h6
  have c6: "\<exists>out. control (stream_run demo_parse demo_timeout ([Next, Env (Emit OpenEvent), Return, Env (Emit (MessageEvent ''{\"x\":1}''))] @ [Resume])) = Finished out"
    by blast
  have h7: "isConnectionClosed (stream_run demo_parse demo_timeout [Next, Env (Emit OpenEvent), Env (Emit (MessageEvent ''{\"x\":1}'')), Resume, Env (Emit CloseEvent)])
      \<and> control (stream_run demo_parse demo_timeout [Next, Env (Emit OpenEvent), Env (Emit (MessageEvent ''{\"x\":1}'')), Resume, Env (Emit CloseEvent)]) = AtYield"
    by (simp add: stream_defs demo_parse_def demo_timeout_def)
  from stream_teardown [where parse = demo_parse and opts = demo_timeout
      and acts = "[Next, Env (Emit OpenEvent), Env (Emit (MessageEvent ''{\"x\":1}'')), Resume, Env (Emit CloseEvent)]",
      THEN conjunct2, THEN conjunct2, THEN conjunct2, THEN conjunct2, THEN conjunct2, THEN conjunct2, THEN conjunct1] h7
  have c7: "control (stream_run demo_parse demo_timeout ([Next, Env (Emit OpenEvent), Env (Emit (MessageEvent ''{\"x\":1}'')), Resume, Env (Emit CloseEvent)] @ [Next])) = Finished Exhausted"
    by blast
  have h8: "isConnectionClosed (stream_run demo_parse demo_timeout [Next, Env (Emit OpenEvent), Env (Emit CloseEvent)])
      \<and> control (stream_run demo_parse demo_timeout [Next, Env (Emit OpenEvent), Env (Emit CloseEvent)]) = RaceResolved"
    by (simp add: stream_defs demo_parse_def demo_timeout_def)
  from stream_teardown [where parse = demo_parse and opts = demo_timeout
      and acts = "[Next, Env (Emit OpenEvent), Env (Emit CloseEvent)]",
      THEN conjunct2, THEN conjunct2, THEN conjunct2, THEN conjunct2, THEN conjunct2, THEN conjunct2, THEN conjunct2, THEN conjunct1] h8
  have c8: "control (stream_run demo_parse demo_timeout ([Next, Env (Emit OpenEvent), Env (Emit CloseEvent)] @ [Resume])) = Finished Exhausted"
    by blast
  have h9: "control (stream_run demo_parse demo_timeout [Next, Env (Emit OpenEvent), Env (Elapse 10)]) = RaceRejected"
    by (simp add: stream_defs demo_parse_def demo_timeout_def)
  from stream_teardown [where parse = demo_parse and opts = demo_timeout
      and acts = "[Next, Env (Emit OpenEvent), Env (Elapse 10)]",
      THEN conjunct2, THEN conjunct2, THEN conjunct2, THEN conjunct2, THEN conjunct2, THEN conjunct2, THEN conjunct2, THEN conjunct2, THEN conjunct1] h9
  have c9: "control (stream_run demo_parse demo_timeout ([Next, Env (Emit OpenEvent), Env (Elapse 10)] @ [Resume]))
        = Finished (Threw (timeoutError (timeoutOf demo_timeout)))"
    by blast
  have h10: "\<not> isConnectionClosed (stream_run demo_parse demo_timeout [Next, Env (Emit OpenEvent), Env (Emit (MessageEvent ''{\"x\":''))])
      \<and> queue (stream_run demo_parse demo_timeout [Next, Env (Emit OpenEvent), Env (Emit (MessageEvent ''{\"x\":''))]) = ''{\"x\":'' # []
      \<and> demo_parse ''{\"x\":'' = None
      \<and> control (stream_run demo_parse demo_timeout [Next, Env (Emit OpenEvent), Env (Emit (MessageEvent ''{\"x\":''))]) = RaceResolved"
    by (simp add: stream_defs demo_parse_def demo_timeout_def)
  from stream_teardown [where parse = demo_parse and opts = demo_timeout
      and acts = "[Next, Env (Emit OpenEvent), Env (Emit (MessageEvent ''{\"x\":''))]",
      THEN conjunct2, THEN conjunct2, THEN conjunct2, THEN conjunct2, THEN conjunct2, THEN conjunct2, THEN conjunct2, THEN conjunct2, THEN conjunct2, rule_format, of "''{\"x\":''" "[]"] h10
  have c10: "control (stream_run demo_parse demo_timeout ([Next, Env (Emit OpenEvent), Env (Emit (MessageEvent ''{\"x\":''))] @ [Resume])) = Finished (Threw (WebSocketError ''Failed to parse WebSocket message as JSON'' (Some SyntaxError)))"
    by blast
  have h11: "\<not> isConnectionClosed (stream_run demo_parse demo_timeout [Next, Env (Emit OpenEvent), Env (Emit (MessageEvent ''{\"x\":1}'')), Resume, Env (Emit (MessageEvent ''{\"x\":''))])
      \<and> queue (stream_run demo_parse demo_timeout [Next, Env (Emit OpenEvent), Env (Emit (MessageEvent ''{\"x\":1}'')), Resume, Env (Emit (MessageEvent ''{\"x\":''))]) = ''{\"x\":'' # []
      \<and> control (stream_run demo_parse demo_timeout [Next, Env (Emit OpenEvent), Env (Emit (MessageEvent ''{\"x\":1}'')), Resume, Env (Emit (MessageEvent ''{\"x\":''))]) = AtYield"
    by (simp add: stream_defs demo_parse_def demo_timeout_def)
  from stream_teardown [where parse = demo_parse and opts = demo_timeout
      and acts = "[Next, Env (Emit OpenEvent), Env (Emit (MessageEvent ''{\"x\":1}'')), Resume, Env (Emit (MessageEvent ''{\"x\":''))]",
      THEN conjunct2, THEN conjunct2, THEN conjunct2, THEN conjunct2, THEN conjunct2, THEN conjunct2, THEN conjunct2, THEN conjunct2, THEN conjunct2, rule_format, of "''{\"x\":''" "[]"] h11 h10
  have c11: "control (stream_run demo_parse demo_timeout ([Next, Env (Emit OpenEvent), Env (Emit (MessageEvent ''{\"x\":1}'')), Resume, Env (Emit (MessageEvent ''{\"x\":''))] @ [Next])) = Finished (Threw (WebSocketError ''Failed to parse WebSocket message as JSON'' (Some SyntaxError)))"
    by blast
  from h1 c1 h2 c2 h3 c3 h4 c4 h5 c5 h6 c6 h7 c7 h8 c8 h9 c9 h10 c10 h11 c11
  show ?thesis by blast
qed

lemma timeoutError_neq_parseError [simp]: "timeoutError ms \<noteq> parseError" "parseError \<noteq> timeoutError ms"
  by (simp_all add: timeoutError_def parseError_def)

lemma timer_inv_loop:
  "timer_inv ms s \<Longrightarrow> timeoutTimer s \<noteq> None \<Longrightarrow>
     (control s = RaceRejected \<longrightarrow> timeoutRejected s) \<Longrightarrow>
     timer_inv ms (processStreamMessages_loop parse ms (s))"
  unfolding processStreamMessages_loop_def yield_def
  by (auto simp: timer_inv_def stream_finally_def split: option.splits list.splits)

lemma timer_inv_start:
  "timer_inv (timeoutOf opts) s \<Longrightarrow> control s = NotStarted \<Longrightarrow>
     timer_inv (timeoutOf opts) (stream_start parse opts s)"
  unfolding stream_start_def processStreamMessages_loop_def yield_def
  by (auto simp: timer_inv_def stream_finally_def setTimeout_def split: option.splits list.splits)

lemma timer_inv_handlers:
  "timer_inv ms s \<Longrightarrow> timer_inv ms (setupStreamHandlers e (s\<lparr>ws := w\<rparr>))"
  by (cases e) (auto simp: timer_inv_def setupStreamHandlers_def wake_def split: option.splits)

lemma timer_inv_timers:
  "timer_inv ms s \<Longrightarrow> timer_inv ms (stream_timers (s\<lparr>now := now s + n\<rparr>))"
  by (auto simp: timer_inv_def stream_timers_def split: option.splits)

lemma timer_inv_step:
  assumes "timer_inv (timeoutOf opts) s"
  shows "timer_inv (timeoutOf opts) (stream_step parse opts s a)"
proof (cases a)
  case (Env occ)
  show ?thesis
  proof (cases occ)
    case (Elapse n)
    with Env timer_inv_timers [OF assms] show ?thesis by (simp add: stream_step_def)
  next
    case (Emit e)
    with Env assms timer_inv_handlers [OF assms] show ?thesis
      by (cases "ws s") (simp_all add: stream_step_def)
  qed
next
  case Next
  show ?thesis
  proof (cases "control s")
    case NotStarted
    with Next timer_inv_start [OF assms] show ?thesis by (simp add: stream_step_def)
  next
    case AtYield
    with assms have "timeoutTimer s \<noteq> None"
      by (auto simp: timer_inv_def split: option.splits)
    with AtYield Next timer_inv_loop [OF assms] show ?thesis by (simp add: stream_step_def)
  qed (use Next assms in \<open>simp_all add: stream_step_def\<close>)
next
  case Resume
  show ?thesis
  proof (cases "control s")
    case RaceResolved
    with assms have "timeoutTimer s \<noteq> None"
      by (auto simp: timer_inv_def split: option.splits)
    with RaceResolved Resume timer_inv_loop [OF assms] show ?thesis by (simp add: stream_step_def)
  next
    case RaceRejected
    with Resume assms show ?thesis
      by (auto simp: stream_step_def timer_inv_def stream_finally_def split: option.splits)
  qed (use Resume assms in \<open>simp_all add: stream_step_def\<close>)
next
  case Return
  with assms show ?thesis
    by (cases "control s")
      (auto simp: stream_step_def timer_inv_def stream_finally_def split: option.splits)
qed

lemma timer_kept_step:
  "timeoutTimer s = Some t \<Longrightarrow> control s \<noteq> NotStarted \<Longrightarrow>
     timeoutTimer (stream_step parse opts s a) = Some t
     \<and> control (stream_step parse opts s a) \<noteq> NotStarted"
proof (cases a)
  case (Env occ)
  assume "timeoutTimer s = Some t" "control s \<noteq> NotStarted"
  with Env show ?thesis
    by (cases occ)
      (auto simp: stream_step_def stream_timers_def setupStreamHandlers_def wake_def
        split: option.splits event.splits)
next
  case Next
  assume "timeoutTimer s = Some t" "control s \<noteq> NotStarted"
  with Next show ?thesis
    by (cases "control s")
      (auto simp: stream_step_def processStreamMessages_loop_def yield_def stream_finally_def
        split: list.splits option.splits)
next
  case Resume
  assume "timeoutTimer s = Some t" "control s \<noteq> NotStarted"
  with Resume show ?thesis
    by (cases "control s")
      (auto simp: stream_step_def processStreamMessages_loop_def yield_def stream_finally_def
        split: list.splits option.splits)
next
  case Return
  assume "timeoutTimer s = Some t" "control s \<noteq> NotStarted"
  with Return show ?thesis
    by (cases "control s") (auto simp: stream_step_def stream_finally_def)
qed

lemma timer_kept:
  "timeoutTimer s = Some t \<Longrightarrow> control s \<noteq> NotStarted \<Longrightarrow>
     timeoutTimer (foldl (stream_step parse opts) s later) = Some t"
proof (induction later arbitrary: s)
  case Nil
  then show ?case by simp
next
  case (Cons a later)
  from timer_kept_step [OF Cons.prems, of parse opts a] Cons.IH show ?case by simp
qed

text \<open>
  C3, as stated.  The claim says that the timeout error can only occur when the
  configured duration has passed since the start of the wait in which it occurs.  With a
  10 ms timeout: the stream starts at 0, a fragment arrives at 8 and is yielded, the
  consumer asks again and the loop waits from 8 on; at 10 the stream fails with the
  timeout error, 2 ms into that wait.
\<close>

theorem stream_timeout_not_rearmed_counterexample:
  "control (stream_run demo_parse demo_timeout
     [Next, Env (Emit OpenEvent), Env (Elapse 8), Env (Emit (MessageEvent ''{\"x\":1}'')),
      Resume, Next, Env (Elapse 2), Resume])
     = Finished (Threw (timeoutError (timeoutOf demo_timeout)))
   \<and> timeoutOf demo_timeout = 10
   \<and> raceInstalledAt (stream_run demo_parse demo_timeout
     [Next, Env (Emit OpenEvent), Env (Elapse 8), Env (Emit (MessageEvent ''{\"x\":1}'')),
      Resume, Next, Env (Elapse 2), Resume]) = Some 8
   \<and> \<not> 8 + timeoutOf demo_timeout \<le> now (stream_run demo_parse demo_timeout
     [Next, Env (Emit OpenEvent), Env (Elapse 8), Env (Emit (MessageEvent ''{\"x\":1}'')),
      Resume, Next, Env (Elapse 2), Resume])
   \<and> yielded (stream_run demo_parse demo_timeout
     [Next, Env (Emit OpenEvent), Env (Elapse 8), Env (Emit (MessageEvent ''{\"x\":1}'')),
      Resume, Next, Env (Elapse 2), Resume]) = [JObject [(''x'', JNumber 1)]]"
  by (simp add: stream_defs demo_parse_def demo_timeout_def)

text \<open>
  C3, amended.  The timer behind \<^verbatim>\<open>timeoutPromise\<close> is armed once, by the first request,
  when the body starts; a wait on an empty queue installs a race and leaves the timer as
  it is, and it stays the same timer whatever happens later.  Its delay is the
  configured duration when that lies between 1 and \<open>2\<^sup>3\<^sup>1 - 1\<close> ms, and 1 ms otherwise
  (the delay \<^verbatim>\<open>setTimeout\<close> then uses).  The stream fails with the timeout error only when
  the clock has reached the time the timer was armed plus that delay: for a duration
  between 1 and \<open>2\<^sup>3\<^sup>1 - 1\<close> ms, only once that many milliseconds have passed since the
  start of the stream.  A wait that begins after the timer has run fails at once with
  the timeout error.
\<close>

theorem stream_timeout_from_start:
  "(control (stream_run parse opts acts) = Finished (Threw (timeoutError (timeoutOf opts))) \<longrightarrow>
      (\<exists>t. timeoutTimer (stream_run parse opts acts) = Some t
           \<and> armedAt t + delay t \<le> now (stream_run parse opts acts)))
   \<and> (\<forall>t. timeoutTimer (stream_run parse opts acts) = Some t \<longrightarrow>
         delay t = delay (setTimeout 0 (timeoutOf opts))
         \<and> (\<forall>r. raceInstalledAt (stream_run parse opts acts) = Some r \<longrightarrow> armedAt t \<le> r)
         \<and> (\<forall>later. timeoutTimer (stream_run parse opts (acts @ later)) = Some t))
   \<and> (control s = NotStarted \<longrightarrow>
        timeoutTimer (stream_step parse opts s Next) = Some (setTimeout (now s) (timeoutOf opts)))
   \<and> (\<not> isConnectionClosed s \<and> queue s = [] \<and> \<not> timeoutRejected s \<longrightarrow>
        control (processStreamMessages_loop parse ms s) = Awaiting
        \<and> timeoutTimer (processStreamMessages_loop parse ms s) = timeoutTimer s)
   \<and> (\<not> isConnectionClosed s \<and> queue s = [] \<and> timeoutRejected s \<longrightarrow>
        control (processStreamMessages_loop parse ms s) = Finished (Threw (timeoutError ms)))
   \<and> (\<forall>t. timeoutTimer (stream_run parse opts acts) = Some t \<longrightarrow>
         delay t = (if timeoutOf opts < 1 \<or> 2147483647 < timeoutOf opts then 1 else timeoutOf opts))
   \<and> (1 \<le> timeoutOf opts \<and> timeoutOf opts \<le> 2147483647
        \<and> control (stream_run parse opts acts)
            = Finished (Threw (timeoutError (timeoutOf opts))) \<longrightarrow>
        (\<exists>t. timeoutTimer (stream_run parse opts acts) = Some t
             \<and> armedAt t + timeoutOf opts \<le> now (stream_run parse opts acts)))
   \<and> (control (stream_run parse opts acts) = NotStarted \<longrightarrow>
        timeoutTimer (stream_run parse opts (acts @ [Next]))
          = Some (setTimeout (now (stream_run parse opts acts)) (timeoutOf opts)))"
proof -
  have inv: "timer_inv (timeoutOf opts) (stream_run parse opts acts)"
  proof (rule stream_run_invariant)
    show "timer_inv (timeoutOf opts) (stream :: 'a stream_state)"
      by (simp add: timer_inv_def stream_def)
  qed (rule timer_inv_step)
  have kept: "timeoutTimer (stream_run parse opts (acts @ later)) = Some t"
    if "timeoutTimer (stream_run parse opts acts) = Some t" for t later
  proof -
    from inv that have "control (stream_run parse opts acts) \<noteq> NotStarted"
      by (auto simp: timer_inv_def)
    from timer_kept [OF that this] show ?thesis by (simp add: stream_run_append)
  qed
  from inv kept have run:
    "(control (stream_run parse opts acts) = Finished (Threw (timeoutError (timeoutOf opts))) \<longrightarrow>
      (\<exists>t. timeoutTimer (stream_run parse opts acts) = Some t
           \<and> armedAt t + delay t \<le> now (stream_run parse opts acts)))
     \<and> (\<forall>t. timeoutTimer (stream_run parse opts acts) = Some t \<longrightarrow>
         delay t = delay (setTimeout 0 (timeoutOf opts))
         \<and> (\<forall>r. raceInstalledAt (stream_run parse opts acts) = Some r \<longrightarrow> armedAt t \<le> r)
         \<and> (\<forall>later. timeoutTimer (stream_run parse opts (acts @ later)) = Some t))"
    by (auto simp: timer_inv_def due_def split: option.splits)
  have start: "control s = NotStarted \<longrightarrow>
        timeoutTimer (stream_step parse opts s Next) = Some (setTimeout (now s) (timeoutOf opts))"
    by (simp add: stream_step_def stream_start_def processStreamMessages_loop_def yield_def
        stream_finally_def split: list.splits option.splits)
  have wait: "\<not> isConnectionClosed s \<and> queue s = [] \<and> \<not> timeoutRejected s \<longrightarrow>
        control (processStreamMessages_loop parse ms s) = Awaiting
        \<and> timeoutTimer (processStreamMessages_loop parse ms s) = timeoutTimer s"
    by (simp add: processStreamMessages_loop_def)
  have late: "\<not> isConnectionClosed s \<and> queue s = [] \<and> timeoutRejected s \<longrightarrow>
        control (processStreamMessages_loop parse ms s) = Finished (Threw (timeoutError ms))"
    by (simp add: processStreamMessages_loop_def stream_finally_def)
  from run have clamp: "\<forall>t. timeoutTimer (stream_run parse opts acts) = Some t \<longrightarrow>
         delay t = (if timeoutOf opts < 1 \<or> 2147483647 < timeoutOf opts then 1 else timeoutOf opts)"
    by (simp add: setTimeout_def)
  from run clamp have exact: "1 \<le> timeoutOf opts \<and> timeoutOf opts \<le> 2147483647
        \<and> control (stream_run parse opts acts)
            = Finished (Threw (timeoutError (timeoutOf opts))) \<longrightarrow>
        (\<exists>t. timeoutTimer (stream_run parse opts acts) = Some t
             \<and> armedAt t + timeoutOf opts \<le> now (stream_run parse opts acts))"
    by auto
  have first: "control (stream_run parse opts acts) = NotStarted \<longrightarrow>
        timeoutTimer (stream_run parse opts (acts @ [Next]))
          = Some (setTimeout (now (stream_run parse opts acts)) (timeoutOf opts))"
    by (simp add: stream_run_snoc stream_step_def stream_start_def processStreamMessages_loop_def
        yield_def stream_finally_def split: list.splits option.splits)
  from run start wait late clamp exact first show ?thesis by blast
qed

theorem stream_timeout_from_start_witness:
  "control (stream_run demo_parse demo_timeout
     [Next, Env (Emit OpenEvent), Env (Elapse 8), Env (Emit (MessageEvent ''{\"x\":1}'')),
      Resume, Next, Env (Elapse 2), Resume])
     = Finished (Threw (timeoutError (timeoutOf demo_timeout)))
   \<and> timeoutTimer (stream_run demo_parse demo_timeout
     [Next, Env (Emit OpenEvent), Env (Elapse 8), Env (Emit (MessageEvent ''{\"x\":1}'')),
      Resume, Next, Env (Elapse 2), Resume]) = Some (Timer 0 10)
   \<and> raceInstalledAt (stream_run demo_parse demo_timeout
     [Next, Env (Emit OpenEvent), Env (Elapse 8), Env (Emit (MessageEvent ''{\"x\":1}'')),
      Resume, Next, Env (Elapse 2), Resume]) = Some 8
   \<and> armedAt (Timer 0 10) \<le> 8
   \<and> (\<exists>t. timeoutTimer (stream_run demo_parse demo_timeout
     [Next, Env (Emit OpenEvent), Env (Elapse 8), Env (Emit (MessageEvent ''{\"x\":1}'')),
      Resume, Next, Env (Elapse 2), Resume]) = Some t
      \<and> armedAt t + delay t \<le> now (stream_run demo_parse demo_timeout
     [Next, Env (Emit OpenEvent), Env (Elapse 8), Env (Emit (MessageEvent ''{\"x\":1}'')),
      Resume, Next, Env (Elapse 2), Resume]))
   \<and> timeoutTimer (stream_run demo_parse demo_timeout
     ([Next, Env (Emit OpenEvent), Env (Elapse 8), Env (Emit (MessageEvent ''{\"x\":1}'')),
      Resume, Next, Env (Elapse 2), Resume] @ [Env (Elapse 5), Next])) = Some (Timer 0 10)
   \<and> control (stream :: json stream_state) = NotStarted
   \<and> timeoutTimer (stream_step demo_parse demo_timeout stream Next)
       = Some (setTimeout (now (stream :: json stream_state)) (timeoutOf demo_timeout))
   \<and> \<not> isConnectionClosed (stream_run demo_parse demo_timeout
        [Next, Env (Emit OpenEvent), Env (Elapse 8), Env (Emit (MessageEvent ''{\"x\":1}'')), Resume])
   \<and> queue (stream_run demo_parse demo_timeout
        [Next, Env (Emit OpenEvent), Env (Elapse 8), Env (Emit (MessageEvent ''{\"x\":1}'')), Resume])
       = []
   \<and> \<not> timeoutRejected (stream_run demo_parse demo_timeout
        [Next, Env (Emit OpenEvent), Env (Elapse 8), Env (Emit (MessageEvent ''{\"x\":1}'')), Resume])
   \<and> control (processStreamMessages_loop demo_parse 10 (stream_run demo_parse demo_timeout
        [Next, Env (Emit OpenEvent), Env (Elapse 8), Env (Emit (MessageEvent ''{\"x\":1}'')), Resume]))
       = Awaiting
   \<and> timeoutRejected (stream_run demo_parse demo_timeout
        [Next, Env (Emit OpenEvent), Env (Elapse 8), Env (Emit (MessageEvent ''{\"x\":1}'')), Resume,
         Env (Elapse 2)])
   \<and> control (processStreamMessages_loop demo_parse 10 (stream_run demo_parse demo_timeout
        [Next, Env (Emit OpenEvent), Env (Elapse 8), Env (Emit (MessageEvent ''{\"x\":1}'')), Resume,
         Env (Elapse 2)]))
       = Finished (Threw (timeoutError 10))
   \<and> 1 \<le> timeoutOf demo_timeout \<and> timeoutOf demo_timeout \<le> 2147483647
   \<and> (\<exists>t. timeoutTimer (stream_run demo_parse demo_timeout
     [Next, Env (Emit OpenEvent), Env (Elapse 8), Env (Emit (MessageEvent ''{\"x\":1}'')),
      Resume, Next, Env (Elapse 2), Resume]) = Some t
      \<and> armedAt t + timeoutOf demo_timeout \<le> now (stream_run demo_parse demo_timeout
     [Next, Env (Emit OpenEvent), Env (Elapse 8), Env (Emit (MessageEvent ''{\"x\":1}'')),
      Resume, Next, Env (Elapse 2), Resume]))
   \<and> timeoutTimer (stream_run demo_parse \<lparr>timeout = Some 2147483648\<rparr>
        [Next, Env (Elapse 1), Resume]) = Some (Timer 0 1)
   \<and> delay (Timer 0 1)
       = (if timeoutOf \<lparr>timeout = Some 2147483648\<rparr> < 1
             \<or> 2147483647 < timeoutOf \<lparr>timeout = Some 2147483648\<rparr>
          then 1 else timeoutOf \<lparr>timeout = Some 2147483648\<rparr>)
   \<and> control (stream_run demo_parse \<lparr>timeout = Some 2147483648\<rparr>
        [Next, Env (Elapse 1), Resume])
       = Finished (Threw (timeoutError (timeoutOf \<lparr>timeout = Some 2147483648\<rparr>)))
   \<and> now (stream_run demo_parse \<lparr>timeout = Some 2147483648\<rparr>
        [Next, Env (Elapse 1), Resume]) = 1
   \<and> control (stream_run demo_parse demo_timeout []) = NotStarted
   \<and> timeoutTimer (stream_run demo_parse demo_timeout ([] @ [Next]))
       = Some (setTimeout (now (stream_run demo_parse demo_timeout [])) (timeoutOf demo_timeout))"
proof -
  let ?yielded = "[Next, Env (Emit OpenEvent), Env (Elapse 8),
      Env (Emit (MessageEvent ''{\"x\":1}'')), Resume]"
  let ?acts = "[Next, Env (Emit OpenEvent), Env (Elapse 8), Env (Emit (MessageEvent ''{\"x\":1}'')),
      Resume, Next, Env (Elapse 2), Resume]"
  let ?late = "[Next, Env (Emit OpenEvent), Env (Elapse 8),
      Env (Emit (MessageEvent ''{\"x\":1}'')), Resume, Env (Elapse 2)]"
  have c: "control (stream_run demo_parse demo_timeout ?acts)
      = Finished (Threw (timeoutError (timeoutOf demo_timeout)))"
    by (simp add: stream_defs demo_parse_def demo_timeout_def)
  have t: "timeoutTimer (stream_run demo_parse demo_timeout ?acts) = Some (Timer 0 10)"
    by (simp add: stream_defs demo_parse_def demo_timeout_def)
  have r: "raceInstalledAt (stream_run demo_parse demo_timeout ?acts) = Some 8"
    by (simp add: stream_defs demo_parse_def demo_timeout_def)
  note inst = stream_timeout_from_start [where parse = demo_parse and opts = demo_timeout
      and acts = ?acts]
  from inst [THEN conjunct1] c
  have e: "\<exists>t. timeoutTimer (stream_run demo_parse demo_timeout ?acts) = Some t
      \<and> armedAt t + delay t \<le> now (stream_run demo_parse demo_timeout ?acts)"
    by blast
  from inst [THEN conjunct2, THEN conjunct1, rule_format, OF t]
  have k: "timeoutTimer (stream_run demo_parse demo_timeout (?acts @ [Env (Elapse 5), Next]))
      = Some (Timer 0 10)"
    and a: "armedAt (Timer 0 10) \<le> 8"
    using r by blast+
  have n: "control (stream :: json stream_state) = NotStarted"
    by (simp add: stream_def)
  from stream_timeout_from_start [where parse = demo_parse and opts = demo_timeout
      and s = "stream :: json stream_state", THEN conjunct2, THEN conjunct2, THEN conjunct1] n
  have st: "timeoutTimer (stream_step demo_parse demo_timeout stream Next)
       = Some (setTimeout (now (stream :: json stream_state)) (timeoutOf demo_timeout))"
    by blast
  have w: "\<not> isConnectionClosed (stream_run demo_parse demo_timeout ?yielded)
      \<and> queue (stream_run demo_parse demo_timeout ?yielded) = []
      \<and> \<not> timeoutRejected (stream_run demo_parse demo_timeout ?yielded)"
    by (simp add: stream_defs demo_parse_def demo_timeout_def)
  from stream_timeout_from_start [where parse = demo_parse and ms = 10
      and s = "stream_run demo_parse demo_timeout ?yielded",
      THEN conjunct2, THEN conjunct2, THEN conjunct2, THEN conjunct1] w
  have wa: "control (processStreamMessages_loop demo_parse 10
      (stream_run demo_parse demo_timeout ?yielded)) = Awaiting"
    by blast
  have l: "\<not> isConnectionClosed (stream_run demo_parse demo_timeout ?late)
      \<and> queue (stream_run demo_parse demo_timeout ?late) = []
      \<and> timeoutRejected (stream_run demo_parse demo_timeout ?late)"
    by (simp add: stream_defs demo_parse_def demo_timeout_def)
  from stream_timeout_from_start [where parse = demo_parse and ms = 10
      and s = "stream_run demo_parse demo_timeout ?late",
      THEN conjunct2, THEN conjunct2, THEN conjunct2, THEN conjunct2, THEN conjunct1] l
  have la: "control (processStreamMessages_loop demo_parse 10
      (stream_run demo_parse demo_timeout ?late)) = Finished (Threw (timeoutError 10))"
    by blast
  have rng: "1 \<le> timeoutOf demo_timeout \<and> timeoutOf demo_timeout \<le> 2147483647"
    by (simp add: timeoutOf_def demo_timeout_def)
  from inst [THEN conjunct2, THEN conjunct2, THEN conjunct2, THEN conjunct2, THEN conjunct2,
      THEN conjunct2, THEN conjunct1] rng c
  have ex: "\<exists>t. timeoutTimer (stream_run demo_parse demo_timeout ?acts) = Some t
      \<and> armedAt t + timeoutOf demo_timeout \<le> now (stream_run demo_parse demo_timeout ?acts)"
    by blast
  let ?big = "\<lparr>timeout = Some 2147483648\<rparr>"
  have bt: "timeoutTimer (stream_run demo_parse ?big [Next, Env (Elapse 1), Resume])
      = Some (Timer 0 1)"
    by (simp add: stream_defs)
  from stream_timeout_from_start [where parse = demo_parse and opts = ?big
      and acts = "[Next, Env (Elapse 1), Resume]",
      THEN conjunct2, THEN conjunct2, THEN conjunct2, THEN conjunct2, THEN conjunct2,
      THEN conjunct1, rule_format, OF bt]
  have bd: "delay (Timer 0 1)
       = (if timeoutOf ?big < 1 \<or> 2147483647 < timeoutOf ?big then 1 else timeoutOf ?big)" .
  have bc: "control (stream_run demo_parse ?big [Next, Env (Elapse 1), Resume])
       = Finished (Threw (timeoutError (timeoutOf ?big)))"
    by (simp add: stream_defs)
  have bn: "now (stream_run demo_parse ?big [Next, Env (Elapse 1), Resume]) = 1"
    by (simp add: stream_defs)
  have ns: "control (stream_run demo_parse demo_timeout []) = NotStarted"
    by (simp add: stream_defs)
  from stream_timeout_from_start [where parse = demo_parse and opts = demo_timeout
      and acts = "[]", THEN conjunct2, THEN conjunct2, THEN conjunct2, THEN conjunct2,
      THEN conjunct2, THEN conjunct2, THEN conjunct2] ns
  have fs: "timeoutTimer (stream_run demo_parse demo_timeout ([] @ [Next]))
       = Some (setTimeout (now (stream_run demo_parse demo_timeout [])) (timeoutOf demo_timeout))"
    by blast
  from c t r a e k n st w wa l la rng ex bt bd bc bn ns fs show ?thesis by blast
qed

text \<open>
  C2.  The claim says that the sequence ends normally only when the queue is empty.
  A fragment arrives and is yielded; while the consumer is busy with it a second
  fragment and the \<^verbatim>\<open>close\<close> event arrive; when the consumer asks again,
  \<^verbatim>\<open>while (!isClosedFn())\<close> ends the loop: the sequence ends without error, the second
  fragment, which is valid JSON, is still in the queue and was never yielded.
\<close>

theorem stream_close_drops_queued:
  "control (stream_run demo_parse demo_timeout
     [Next, Env (Emit OpenEvent), Env (Emit (MessageEvent ''{\"x\":1}'')), Resume,
      Env (Emit (MessageEvent ''{\"x\":2}'')), Env (Emit CloseEvent), Next]) = Finished Exhausted
   \<and> isConnectionClosed (stream_run demo_parse demo_timeout
     [Next, Env (Emit OpenEvent), Env (Emit (MessageEvent ''{\"x\":1}'')), Resume,
      Env (Emit (MessageEvent ''{\"x\":2}'')), Env (Emit CloseEvent), Next])
   \<and> queue (stream_run demo_parse demo_timeout
     [Next, Env (Emit OpenEvent), Env (Emit (MessageEvent ''{\"x\":1}'')), Resume,
      Env (Emit (MessageEvent ''{\"x\":2}'')), Env (Emit CloseEvent), Next]) = [''{\"x\":2}'']
   \<and> received (stream_run demo_parse demo_timeout
     [Next, Env (Emit OpenEvent), Env (Emit (MessageEvent ''{\"x\":1}'')), Resume,
      Env (Emit (MessageEvent ''{\"x\":2}'')), Env (Emit CloseEvent), Next])
     = [''{\"x\":1}'', ''{\"x\":2}'']
   \<and> yielded (stream_run demo_parse demo_timeout
     [Next, Env (Emit OpenEvent), Env (Emit (MessageEvent ''{\"x\":1}'')), Resume,
      Env (Emit (MessageEvent ''{\"x\":2}'')), Env (Emit CloseEvent), Next])
     = [JObject [(''x'', JNumber 1)]]
   \<and> demo_parse ''{\"x\":2}'' = Some (JObject [(''x'', JNumber 2)])"
  by (simp add: stream_defs demo_parse_def demo_timeout_def)

text \<open>
  C9.  The claim says that every fragment is decoded on its own and its value yielded,
  in arrival order, and that a fragment that is not valid JSON makes the sequence fail.
  First run: two fragments and then the \<^verbatim>\<open>close\<close> event arrive before the generator is
  resumed; the sequence ends without error and has yielded nothing, although both
  fragments are valid JSON; they are still in the queue.  Second run: a fragment is
  yielded, and while the consumer is busy with it a fragment that is not valid JSON and
  the \<^verbatim>\<open>close\<close> event arrive; when the consumer asks again the sequence ends without
  error, the malformed fragment was never parsed.  In both runs
  \<^verbatim>\<open>while (!isClosedFn())\<close> leaves the loop without looking at the queue.
\<close>

theorem stream_fragments_unparsed_at_close:
  "control (stream_run demo_parse demo_timeout
     [Next, Env (Emit OpenEvent), Env (Emit (MessageEvent ''{\"x\":1}'')),
      Env (Emit (MessageEvent ''{\"x\":2}'')), Env (Emit CloseEvent), Resume]) = Finished Exhausted
   \<and> yielded (stream_run demo_parse demo_timeout
     [Next, Env (Emit OpenEvent), Env (Emit (MessageEvent ''{\"x\":1}'')),
      Env (Emit (MessageEvent ''{\"x\":2}'')), Env (Emit CloseEvent), Resume]) = []
   \<and> queue (stream_run demo_parse demo_timeout
     [Next, Env (Emit OpenEvent), Env (Emit (MessageEvent ''{\"x\":1}'')),
      Env (Emit (MessageEvent ''{\"x\":2}'')), Env (Emit CloseEvent), Resume])
     = [''{\"x\":1}'', ''{\"x\":2}'']
   \<and> demo_parse ''{\"x\":1}'' = Some (JObject [(''x'', JNumber 1)])
   \<and> demo_parse ''{\"x\":2}'' = Some (JObject [(''x'', JNumber 2)])
   \<and> control (stream_run demo_parse demo_timeout
     [Next, Env (Emit OpenEvent), Env (Emit (MessageEvent ''{\"x\":1}'')), Resume,
      Env (Emit (MessageEvent ''{\"x\":'')), Env (Emit CloseEvent), Next]) = Finished Exhausted
   \<and> yielded (stream_run demo_parse demo_timeout
     [Next, Env (Emit OpenEvent), Env (Emit (MessageEvent ''{\"x\":1}'')), Resume,
      Env (Emit (MessageEvent ''{\"x\":'')), Env (Emit CloseEvent), Next])
     = [JObject [(''x'', JNumber 1)]]
   \<and> queue (stream_run demo_parse demo_timeout
     [Next, Env (Emit OpenEvent), Env (Emit (MessageEvent ''{\"x\":1}'')), Resume,
      Env (Emit (MessageEvent ''{\"x\":'')), Env (Emit CloseEvent), Next]) = [''{\"x\":'']
   \<and> uncaught (stream_run demo_parse demo_timeout
     [Next, Env (Emit OpenEvent), Env (Emit (MessageEvent ''{\"x\":1}'')), Resume,
      Env (Emit (MessageEvent ''{\"x\":'')), Env (Emit CloseEvent), Next]) = []
   \<and> demo_parse ''{\"x\":'' = None"
  by (simp add: stream_defs demo_parse_def demo_timeout_def)

text \<open>
  C4.  The claim says that an \<^verbatim>\<open>error\<close> event makes the sequence fail with a
  \<^verbatim>\<open>WebSocketError\<close>.  The \<^verbatim>\<open>error\<close> listener never changes the generator's point of
  control.  In the scenario the \<^verbatim>\<open>WebSocketError\<close> it throws is left uncaught in the
  emitter while the generator keeps waiting, and after the \<^verbatim>\<open>close\<close> event that
  follows the sequence ends without any error.
\<close>

theorem stream_error_event_uncaught:
  "control (stream_step parse opts s (Env (Emit (ErrorEvent x)))) = control s
   \<and> control (stream_run demo_parse demo_timeout
       [Next, Env (Emit OpenEvent), Env (Emit (ErrorEvent ''ECONNRESET''))]) = Awaiting
   \<and> uncaught (stream_run demo_parse demo_timeout
       [Next, Env (Emit OpenEvent), Env (Emit (ErrorEvent ''ECONNRESET''))])
     = [WebSocketError ''WebSocket stream error'' (Some (SocketFault ''ECONNRESET''))]
   \<and> control (stream_run demo_parse demo_timeout
       [Next, Env (Emit OpenEvent), Env (Emit (ErrorEvent ''ECONNRESET'')),
        Env (Emit CloseEvent), Resume]) = Finished Exhausted"
proof -
  have "control (stream_step parse opts s (Env (Emit (ErrorEvent x)))) = control s"
    by (simp add: stream_step_def setupStreamHandlers_def split: option.splits)
  then show ?thesis
    by (simp add: stream_defs demo_parse_def demo_timeout_def)
qed


end
